theory Spec2Isabelle
  imports Complex_Main
begin

section \<open>Python values, errors and the built-ins the hook relies on\<close>

text \<open>
  The hook \<^verbatim>\<open>TextLoggerHook\<close> of
  \<^verbatim>\<open>modelscope/trainers/hooks/logger/text_logger_hook.py\<close> works on metric snapshots:
  insertion-ordered dictionaries from metric names to Python values. The values that
  are modelled are \<^verbatim>\<open>None\<close>, integers, floats, strings, lists and dictionaries with
  string keys. The type \<open>'f\<close> is the carrier of Python's \<^verbatim>\<open>float\<close>; its arithmetic and
  its decimal formatting belong to the interpreter and are taken as a parameter
  (\<open>pyops\<close> below), so that every statement holds for IEEE-754 doubles as for any
  other carrier.
\<close>

datatype 'f "value" =
    VNone
  | VInt int
  | VFloat 'f
  | VStr string
  | VList "'f value list"
  | VDict "(string \<times> 'f value) list"

type_synonym 'f pydict = "(string \<times> 'f value) list"

datatype error =
    KeyError string
  | TypeError
  | ValueError
  | ZeroDivisionError
  | OverflowError
  | AttributeError string
  | RuntimeError
  | CollectiveStalled
  | FileNotFoundError
  | FileExistsError
  | NotADirectoryError

record 'f pyops =
  float_of_int :: "int \<Rightarrow> 'f option"
  fadd :: "'f \<Rightarrow> 'f \<Rightarrow> 'f"
  fmul :: "'f \<Rightarrow> 'f \<Rightarrow> 'f"
  fdiv :: "'f \<Rightarrow> 'f \<Rightarrow> 'f"
  int_truediv :: "int \<Rightarrow> int \<Rightarrow> 'f option"
  int_of_float :: "'f \<Rightarrow> error + int"
  fformat :: "string \<Rightarrow> 'f \<Rightarrow> string"
  fround :: "'f \<Rightarrow> nat \<Rightarrow> 'f"
  float_repr :: "'f \<Rightarrow> string"
  container_str :: "'f value \<Rightarrow> string"

subsection \<open>Dictionaries\<close>

text \<open>
  \<^verbatim>\<open>d[k]\<close> raises \<^verbatim>\<open>KeyError\<close> on a missing key; \<^verbatim>\<open>d[k] = v\<close> overwrites the value of a
  key in place and appends a new key at the end.
\<close>

definition dict_get :: "'f pydict \<Rightarrow> string \<Rightarrow> error + 'f value" where
  "dict_get d k = (case map_of d k of None \<Rightarrow> Inl (KeyError k) | Some v \<Rightarrow> Inr v)"

fun dict_set :: "'f pydict \<Rightarrow> string \<Rightarrow> 'f value \<Rightarrow> 'f pydict" where
  "dict_set [] k v = [(k, v)]"
| "dict_set ((k', v') # d) k v =
     (if k' = k then (k, v) # d else (k', v') # dict_set d k v)"

definition dict_keys :: "'f pydict \<Rightarrow> string list" where
  "dict_keys d = map fst d"

subsection \<open>Errors in sequence\<close>

text \<open>An exception ends the computation: the first \<open>Inl\<close> is the result.\<close>

definition bind :: "error + 'a \<Rightarrow> ('a \<Rightarrow> error + 'b) \<Rightarrow> error + 'b" where
  "bind m f = (case m of Inl e \<Rightarrow> Inl e | Inr x \<Rightarrow> f x)"

subsection \<open>\<^verbatim>\<open>str\<close> and \<^verbatim>\<open>format\<close>\<close>

fun str_nat :: "nat \<Rightarrow> string" where
  "str_nat n =
     (if n < 10 then [''0123456789'' ! n]
      else str_nat (n div 10) @ [''0123456789'' ! (n mod 10)])"

declare str_nat.simps [simp del]

definition str_int :: "int \<Rightarrow> string" where
  "str_int i = (if i < 0 then ''-'' @ str_nat (nat (- i)) else str_nat (nat i))"

text \<open>
  An f-string field without a format specification, \<^verbatim>\<open>f'{val}'\<close>, is \<^verbatim>\<open>str(val)\<close> for
  the values modelled here.
\<close>

definition py_str :: "'f pyops \<Rightarrow> 'f value \<Rightarrow> string" where
  "py_str ops v =
     (case v of
        VNone \<Rightarrow> ''None''
      | VInt i \<Rightarrow> str_int i
      | VFloat x \<Rightarrow> float_repr ops x
      | VStr s \<Rightarrow> s
      | VList xs \<Rightarrow> container_str ops v
      | VDict d \<Rightarrow> container_str ops v)"

text \<open>
  \<^verbatim>\<open>f'{val:.3e}'\<close>, \<^verbatim>\<open>f'{val:.3f}'\<close>: a float is formatted, an integer is converted to a float
  first, a string raises \<^verbatim>\<open>ValueError\<close>, and \<^verbatim>\<open>None\<close>, lists and dictionaries raise
  \<^verbatim>\<open>TypeError\<close>.
\<close>

definition py_format :: "'f pyops \<Rightarrow> string \<Rightarrow> 'f value \<Rightarrow> error + string" where
  "py_format ops spec v =
     (case v of
        VFloat x \<Rightarrow> Inr (fformat ops spec x)
      | VInt i \<Rightarrow>
          (case float_of_int ops i of
             None \<Rightarrow> Inl OverflowError
           | Some x \<Rightarrow> Inr (fformat ops spec x))
      | VStr s \<Rightarrow> Inl ValueError
      | _ \<Rightarrow> Inl TypeError)"

subsection \<open>Arithmetic\<close>

text \<open>
  \<^verbatim>\<open>self.time_sec_tot\<close> is a number: the integer 0 at construction, and afterwards what
  \<^verbatim>\<open>+=\<close> makes of it.
\<close>

datatype 'f num = NInt int | NFloat 'f

text \<open>\<^verbatim>\<open>val * n\<close> for an integer \<^verbatim>\<open>n\<close>; strings and lists are repeated.\<close>

definition py_mul_int :: "'f pyops \<Rightarrow> 'f value \<Rightarrow> int \<Rightarrow> error + 'f value" where
  "py_mul_int ops v n =
     (case v of
        VInt i \<Rightarrow> Inr (VInt (i * n))
      | VFloat x \<Rightarrow>
          (case float_of_int ops n of
             None \<Rightarrow> Inl OverflowError
           | Some y \<Rightarrow> Inr (VFloat (fmul ops x y)))
      | VStr s \<Rightarrow> Inr (VStr (concat (replicate (nat n) s)))
      | VList xs \<Rightarrow> Inr (VList (concat (replicate (nat n) xs)))
      | _ \<Rightarrow> Inl TypeError)"

text \<open>\<^verbatim>\<open>tot += val\<close> for a number \<^verbatim>\<open>tot\<close>.\<close>

definition py_add :: "'f pyops \<Rightarrow> 'f num \<Rightarrow> 'f value \<Rightarrow> error + 'f num" where
  "py_add ops tot v =
     (case (tot, v) of
        (NInt a, VInt b) \<Rightarrow> Inr (NInt (a + b))
      | (NInt a, VFloat y) \<Rightarrow>
          (case float_of_int ops a of
             None \<Rightarrow> Inl OverflowError
           | Some x \<Rightarrow> Inr (NFloat (fadd ops x y)))
      | (NFloat x, VInt b) \<Rightarrow>
          (case float_of_int ops b of
             None \<Rightarrow> Inl OverflowError
           | Some y \<Rightarrow> Inr (NFloat (fadd ops x y)))
      | (NFloat x, VFloat y) \<Rightarrow> Inr (NFloat (fadd ops x y))
      | _ \<Rightarrow> Inl TypeError)"

text \<open>\<^verbatim>\<open>tot / d\<close> for an integer \<^verbatim>\<open>d\<close>: true division, a float.\<close>

definition py_truediv_int :: "'f pyops \<Rightarrow> 'f num \<Rightarrow> int \<Rightarrow> error + 'f" where
  "py_truediv_int ops tot d =
     (if d = 0 then Inl ZeroDivisionError
      else
        (case tot of
           NInt a \<Rightarrow>
             (case int_truediv ops a d of None \<Rightarrow> Inl OverflowError | Some q \<Rightarrow> Inr q)
         | NFloat x \<Rightarrow>
             (case float_of_int ops d of
                None \<Rightarrow> Inl OverflowError
              | Some y \<Rightarrow> Inr (fdiv ops x y))))"

text \<open>\<^verbatim>\<open>x * n\<close> for a float \<^verbatim>\<open>x\<close> and an integer \<^verbatim>\<open>n\<close>.\<close>

definition fmul_int :: "'f pyops \<Rightarrow> 'f \<Rightarrow> int \<Rightarrow> error + 'f" where
  "fmul_int ops x n =
     (case float_of_int ops n of None \<Rightarrow> Inl OverflowError | Some y \<Rightarrow> Inr (fmul ops x y))"

subsection \<open>\<^verbatim>\<open>str(datetime.timedelta(seconds=n))\<close>\<close>

text \<open>
  A \<^verbatim>\<open>timedelta\<close> is normalised to days and seconds, \<^verbatim>\<open>0 <= seconds < 86400\<close>, and its
  days are bounded by 999999999 in magnitude (\<^verbatim>\<open>OverflowError\<close> beyond). The string is
  \<^verbatim>\<open>H:MM:SS\<close>, after \<^verbatim>\<open>D day, \<close> or \<^verbatim>\<open>D days, \<close> when the days are not zero.
\<close>

definition pad2 :: "int \<Rightarrow> string" where
  "pad2 i = (if i < 10 then ''0'' @ str_int i else str_int i)"

definition hms_str :: "int \<Rightarrow> string" where
  "hms_str secs =
     str_int (secs div 3600) @ '':'' @ pad2 ((secs div 60) mod 60) @ '':'' @ pad2 (secs mod 60)"

definition timedelta_str :: "int \<Rightarrow> error + string" where
  "timedelta_str n =
     (let days = n div 86400; secs = n mod 86400 in
      if \<bar>days\<bar> > 999999999 then Inl OverflowError
      else if days = 0 then Inr (hms_str secs)
      else Inr (str_int days @ '' day'' @ (if \<bar>days\<bar> = 1 then [] else ''s'') @ '', ''
                @ hms_str secs))"

subsection \<open>Paths\<close>

text \<open>\<^verbatim>\<open>os.path.join(a, b)\<close> on POSIX.\<close>

definition osp_join :: "string \<Rightarrow> string \<Rightarrow> string" where
  "osp_join a b =
     (if b \<noteq> [] \<and> hd b = CHR ''/'' then b
      else if a = [] \<or> last a = CHR ''/'' then a @ b
      else a @ ''/'' @ b)"

section \<open>The JSON record: \<^verbatim>\<open>_round_float\<close> and \<^verbatim>\<open>_dump_log\<close>\<close>

text \<open>
  \<^verbatim>\<open>
  def _round_float(self, items, ndigits=5):
      if isinstance(items, list):
          return [self._round_float(item) for item in items]
      elif isinstance(items, float):
          return round(items, ndigits)
      else:
          return items
  \<close>
  The recursive call does not pass \<^verbatim>\<open>ndigits\<close> on: list elements are rounded with the
  default, 5.
\<close>

fun round_float :: "'f pyops \<Rightarrow> 'f value \<Rightarrow> nat \<Rightarrow> 'f value" where
  "round_float ops (VList items) ndigits = VList (map (\<lambda>item. round_float ops item 5) items)"
| "round_float ops (VFloat x) ndigits = VFloat (fround ops x ndigits)"
| "round_float ops items ndigits = items"

text \<open>
  What the hook writes to: the lines given to \<^verbatim>\<open>trainer.logger.info\<close>, the directories
  that exist, and the files, each the list of the JSON objects appended to it, one per
  line (\<^verbatim>\<open>json.dump\<close> followed by a newline). The text encoding of an object is the work
  of \<^verbatim>\<open>json\<close> and of an encoder outside this file; a file is kept as the objects
  themselves.
\<close>

record 'f world =
  sink :: "string list"
  dirs :: "string set"
  files :: "string \<Rightarrow> 'f pydict list option"

text \<open>
  Modelled from the spec: \<^verbatim>\<open>is_master\<close> of \<^verbatim>\<open>modelscope.utils.torch_utils\<close> is not in the
  source at hand; the designated single writer is the process of rank 0.
\<close>

definition is_master :: "nat \<Rightarrow> bool" where
  "is_master rank = (rank = 0)"

record 'f hook =
  by_epoch :: bool
  interval :: int
  time_sec_tot :: "'f num"
  out_dir :: "string option"
  logged_keys :: "string list"
  start_iter :: "int option"
  json_log_path :: "string option"

text \<open>
  \<^verbatim>\<open>open(path, 'a+')\<close> creates the file when it is absent, and appends. The model
  covers the calls in which the file can be opened: its directory exists and the path is
  not a directory.
\<close>

definition append_line :: "string \<Rightarrow> 'f pydict \<Rightarrow> 'f world \<Rightarrow> 'f world" where
  "append_line path obj w =
     w\<lparr>files := (files w)(path \<mapsto> (case files w path of None \<Rightarrow> [] | Some ls \<Rightarrow> ls) @ [obj])\<rparr>"

text \<open>
  \<^verbatim>\<open>
  def _dump_log(self, log_dict):
      json_log = OrderedDict()
      for k, v in log_dict.items():
          json_log[k] = self._round_float(v)
      if is_master():
          with open(self.json_log_path, 'a+') as f:
              json.dump(json_log, f, cls=EnhancedEncoder)
              f.write('\n')
  \<close>
  \<^verbatim>\<open>self.json_log_path\<close> exists only after \<^verbatim>\<open>before_run\<close>, and is read only by the
  single writer.
\<close>

definition json_log_of :: "'f pyops \<Rightarrow> 'f pydict \<Rightarrow> 'f pydict" where
  "json_log_of ops log_dict =
     foldl (\<lambda>json_log (k, v). dict_set json_log k (round_float ops v 5)) [] log_dict"

definition dump_log :: "'f pyops \<Rightarrow> nat \<Rightarrow> 'f hook \<Rightarrow> 'f pydict \<Rightarrow> 'f world \<Rightarrow> error + 'f world" where
  "dump_log ops rank self log_dict w =
     (let json_log = json_log_of ops log_dict in
      if is_master rank then
        (case json_log_path self of
           None \<Rightarrow> Inl (AttributeError ''json_log_path'')
         | Some path \<Rightarrow> Inr (append_line path json_log w))
      else Inr w)"

section \<open>The run context and the constants\<close>

text \<open>
  The constants of \<^verbatim>\<open>modelscope.utils.constant\<close> that the hook reads (\<^verbatim>\<open>LogKeys.LR\<close>,
  \<^verbatim>\<open>LogKeys.EPOCH\<close>, ..., and \<^verbatim>\<open>ModeKeys.TRAIN\<close>) are declared outside this file: they are
  a parameter of the model.
\<close>

record log_keys =
  LR :: string
  EPOCH :: string
  ITER :: string
  MODE :: string
  ITER_TIME :: string
  DATA_LOAD_TIME :: string
  ETA :: string
  MEMORY :: string
  TRAIN :: string

text \<open>
  Modelled from the spec: the values of the constants of \<^verbatim>\<open>LogKeys\<close> and of
  \<^verbatim>\<open>ModeKeys.TRAIN\<close>, which are not in the source at hand. The spec renders the learning
  rate as \<^verbatim>\<open>lr: \<close> and the prefixes as \<^verbatim>\<open>epoch [\<close> and \<^verbatim>\<open>iter [\<close>; the snapshot is built
  with the keys \<^verbatim>\<open>mode\<close>, \<^verbatim>\<open>epoch\<close> and \<^verbatim>\<open>iter\<close>; the other names follow the fields they
  stand for.
\<close>

definition LogKeys :: log_keys where
  "LogKeys =
     \<lparr>LR = ''lr'', EPOCH = ''epoch'', ITER = ''iter'', MODE = ''mode'',
      ITER_TIME = ''iter_time'', DATA_LOAD_TIME = ''data_load_time'', ETA = ''eta'',
      MEMORY = ''memory'', TRAIN = ''train''\<rparr>"

text \<open>What the hook reads of the trainer. \<^verbatim>\<open>meta\<close> is \<open>None\<close> when the trainer has no
  such attribute or when it is \<^verbatim>\<open>None\<close>.\<close>

record 'f trainer =
  work_dir :: string
  iter :: int
  max_iters :: int
  iters_per_epoch :: int
  timestamp :: string
  meta :: "'f pydict option"
  mode :: string
  log_buffer_output :: "'f pydict"

section \<open>\<^verbatim>\<open>__init__\<close> and \<^verbatim>\<open>before_run\<close>\<close>

text \<open>
  \<^verbatim>\<open>
  self.by_epoch = by_epoch
  self.time_sec_tot = 0
  self.out_dir = out_dir
  self._logged_keys = []  # store the key has been logged
  \<close>
\<close>

definition init :: "bool \<Rightarrow> int \<Rightarrow> string option \<Rightarrow> 'f hook" where
  "init by_epoch' interval' out_dir' =
     \<lparr>by_epoch = by_epoch', interval = interval', time_sec_tot = NInt 0,
      out_dir = out_dir', logged_keys = [], start_iter = None, json_log_path = None\<rparr>"

text \<open>
  \<^verbatim>\<open>os.path.exists\<close> and \<^verbatim>\<open>os.makedirs\<close>. Directories are recorded without trailing
  slashes; the root always exists and the empty path never does. \<^verbatim>\<open>os.makedirs\<close> creates
  the directory and its missing ancestors; it raises \<^verbatim>\<open>FileNotFoundError\<close> for the empty
  path, \<^verbatim>\<open>FileExistsError\<close> when the path exists, and \<^verbatim>\<open>NotADirectoryError\<close> when an
  ancestor is a regular file. Paths are taken without \<^verbatim>\<open>.\<close> and \<^verbatim>\<open>..\<close> components and without
  repeated slashes; failures that do not depend on the paths (permissions, a full disk)
  are not modelled.
\<close>

definition strip_slashes :: "string \<Rightarrow> string" where
  "strip_slashes p =
     (if list_all (\<lambda>c. c = CHR ''/'') p then p
      else rev (dropWhile (\<lambda>c. c = CHR ''/'') (rev p)))"

definition osp_exists :: "string \<Rightarrow> 'f world \<Rightarrow> bool" where
  "osp_exists p w =
     (p \<noteq> [] \<and>
      (list_all (\<lambda>c. c = CHR ''/'') p \<or> strip_slashes p \<in> dirs w \<or> files w p \<noteq> None))"

definition ancestors :: "string \<Rightarrow> string list" where
  "ancestors p = map (\<lambda>i. take i p) (filter (\<lambda>i. p ! i = CHR ''/'') [1..<length p])"

definition makedirs :: "string \<Rightarrow> 'f world \<Rightarrow> error + 'f world" where
  "makedirs p w =
     (let q = strip_slashes p in
      if q = [] then Inl FileNotFoundError
      else if osp_exists q w then Inl FileExistsError
      else if list_ex (\<lambda>a. files w a \<noteq> None) (ancestors q) then Inl NotADirectoryError
      else Inr (w\<lparr>dirs := dirs w \<union> set (ancestors q) \<union> {q}\<rparr>))"

definition logger_info :: "string \<Rightarrow> 'f world \<Rightarrow> 'f world" where
  "logger_info line w = w\<lparr>sink := sink w @ [line]\<rparr>"

text \<open>
  \<^verbatim>\<open>
  def before_run(self, trainer):
      super(TextLoggerHook, self).before_run(trainer)
      if self.out_dir is None:
          self.out_dir = trainer.work_dir
      if not osp.exists(self.out_dir) and is_master():
          os.makedirs(self.out_dir)
      trainer.logger.info('Text logs will be saved to {}'.format(self.out_dir))
      self.start_iter = trainer.iter
      self.json_log_path = osp.join(self.out_dir,
                                    '{}.log.json'.format(trainer.timestamp))
      if hasattr(trainer, 'meta') and trainer.meta is not None:
          self._dump_log(trainer.meta)
  \<close>
  The method of the base class is outside this file and is not modelled. An exception of
  \<^verbatim>\<open>os.makedirs\<close> ends the call.
\<close>

definition before_run ::
  "'f pyops \<Rightarrow> nat \<Rightarrow> 'f trainer \<Rightarrow> 'f hook \<Rightarrow> 'f world \<Rightarrow> error + ('f hook \<times> 'f world)" where
  "before_run ops rank trainer self w =
     (let dir = (case out_dir self of None \<Rightarrow> work_dir trainer | Some d \<Rightarrow> d) in
      bind (if \<not> osp_exists dir w \<and> is_master rank then makedirs dir w else Inr w) (\<lambda>w1.
        let w2 = logger_info (''Text logs will be saved to '' @ dir) w1;
            self' = self\<lparr>out_dir := Some dir, start_iter := Some (iter trainer),
                         json_log_path := Some (osp_join dir (timestamp trainer @ ''.log.json''))\<rparr>
        in case meta trainer of
             None \<Rightarrow> Inr (self', w2)
           | Some m \<Rightarrow> bind (dump_log ops rank self' m w2) (\<lambda>w3. Inr (self', w3))))"

section \<open>\<^verbatim>\<open>_get_max_memory\<close>\<close>

text \<open>
  \<^verbatim>\<open>
  mem = torch.cuda.max_memory_allocated(device=device)
  mem_mb = torch.tensor([mem / (1024 * 1024)], dtype=torch.int, device=device)
  _, world_size = get_dist_info()
  if world_size > 1:
      dist.reduce(mem_mb, 0, op=dist.ReduceOp.MAX)
  return mem_mb.item()
  \<close>
  The counter is a number of bytes. The quotient is truncated to a 32-bit integer; the
  conversion raises \<^verbatim>\<open>RuntimeError\<close> when the value does not fit.
\<close>

definition mem_mb_of :: "nat \<Rightarrow> error + int" where
  "mem_mb_of mem =
     (if mem div (1024 * 1024) < 2 ^ 31 then Inr (int (mem div (1024 * 1024)))
      else Inl RuntimeError)"

text \<open>
  \<^verbatim>\<open>dist.reduce(tensor, dst, op)\<close> of \<^verbatim>\<open>torch.distributed\<close>: only the process of rank
  \<^verbatim>\<open>dst\<close> receives the result. What the call leaves in the tensor of another rank depends
  on the backend: it is the parameter \<open>nondst\<close>, a function of the rank and of the values
  contributed by all ranks.
\<close>

definition dist_reduce_max :: "(nat \<Rightarrow> int list \<Rightarrow> int) \<Rightarrow> int list \<Rightarrow> nat \<Rightarrow> nat \<Rightarrow> int" where
  "dist_reduce_max nondst tensors dst rank =
     (if rank = dst then Max (set tensors) else nondst rank tensors)"

text \<open>The backend that leaves the tensor of a rank other than the destination as it is
  (NCCL reduces into the receive buffer of the root only).\<close>

definition keep_local :: "nat \<Rightarrow> int list \<Rightarrow> int" where
  "keep_local rank tensors = tensors ! rank"

text \<open>
  \<open>mems\<close> are the local readings of the processes of the run, by rank; its length is
  the world size, and \<open>rank\<close> is below it. A process whose conversion fails never joins
  the reduction, which then does not complete for the others.
\<close>

fun all_ok :: "(error + 'a) list \<Rightarrow> 'a list option" where
  "all_ok [] = Some []"
| "all_ok (Inl e # rs) = None"
| "all_ok (Inr x # rs) = (case all_ok rs of None \<Rightarrow> None | Some xs \<Rightarrow> Some (x # xs))"

definition get_max_memory :: "(nat \<Rightarrow> int list \<Rightarrow> int) \<Rightarrow> nat list \<Rightarrow> nat \<Rightarrow> error + int" where
  "get_max_memory nondst mems rank =
     bind (mem_mb_of (mems ! rank)) (\<lambda>mem_mb.
       if length mems > 1 then
         (case all_ok (map mem_mb_of mems) of
            None \<Rightarrow> Inl CollectiveStalled
          | Some tensors \<Rightarrow> Inr (dist_reduce_max nondst tensors 0 rank))
       else Inr mem_mb)"

section \<open>\<^verbatim>\<open>_log_info\<close>\<close>

text \<open>
  \<^verbatim>\<open>
  if isinstance(log_dict[lr_key], dict):
      lr_str = []
      for k, val in log_dict[lr_key].items():
          lr_str.append(f'{lr_key}_{k}: {val:.3e}')
      lr_str = ' '.join(lr_str)
  else:
      lr_str = f'{lr_key}: {log_dict[lr_key]:.3e}'
  \<close>
\<close>

fun join :: "string \<Rightarrow> string list \<Rightarrow> string" where
  "join sep [] = []"
| "join sep [x] = x"
| "join sep (x # y # ys) = x @ sep @ join sep (y # ys)"

fun lr_segments :: "'f pyops \<Rightarrow> log_keys \<Rightarrow> 'f pydict \<Rightarrow> error + string list" where
  "lr_segments ops keys [] = Inr []"
| "lr_segments ops keys ((k, val) # groups) =
     bind (py_format ops ''.3e'' val) (\<lambda>s.
     bind (lr_segments ops keys groups) (\<lambda>segs.
       Inr ((LR keys @ ''_'' @ k @ '': '' @ s) # segs)))"

definition lr_str :: "'f pyops \<Rightarrow> log_keys \<Rightarrow> 'f value \<Rightarrow> error + string" where
  "lr_str ops keys lr =
     (case lr of
        VDict groups \<Rightarrow> bind (lr_segments ops keys groups) (\<lambda>segs. Inr (join '' '' segs))
      | _ \<Rightarrow> bind (py_format ops ''.3e'' lr) (\<lambda>s. Inr (LR keys @ '': '' @ s)))"

text \<open>
  \<^verbatim>\<open>
  if self.by_epoch:
      log_str = f'{epoch_key} [{log_dict[epoch_key]}][{log_dict[iter_key]}/{trainer.iters_per_epoch}]\t'
  else:
      log_str = f'{iter_key} [{log_dict[iter_key]}/{trainer.max_iters}]\t'
  \<close>
\<close>

definition train_prefix ::
  "'f pyops \<Rightarrow> log_keys \<Rightarrow> 'f trainer \<Rightarrow> 'f hook \<Rightarrow> 'f pydict \<Rightarrow> error + string" where
  "train_prefix ops keys trainer self log_dict =
     (if by_epoch self then
        bind (dict_get log_dict (EPOCH keys)) (\<lambda>e.
        bind (dict_get log_dict (ITER keys)) (\<lambda>i.
          Inr (EPOCH keys @ '' ['' @ py_str ops e @ '']['' @ py_str ops i @ ''/''
               @ str_int (iters_per_epoch trainer) @ '']'' @ [CHR 0x09])))
      else
        bind (dict_get log_dict (ITER keys)) (\<lambda>i.
          Inr (ITER keys @ '' ['' @ py_str ops i @ ''/'' @ str_int (max_iters trainer)
               @ '']'' @ [CHR 0x09])))"

text \<open>
  \<^verbatim>\<open>
  if self.by_epoch:
      log_str = f'{epoch_key}({log_dict[mode_key]}) [{log_dict[epoch_key]}][{log_dict[iter_key]}]\t'
  else:
      log_str = f'{iter_key}({log_dict[mode_key]}) [{log_dict[iter_key]}]\t'
  \<close>
\<close>

definition eval_prefix ::
  "'f pyops \<Rightarrow> log_keys \<Rightarrow> 'f hook \<Rightarrow> 'f pydict \<Rightarrow> error + string" where
  "eval_prefix ops keys self log_dict =
     (if by_epoch self then
        bind (dict_get log_dict (MODE keys)) (\<lambda>m.
        bind (dict_get log_dict (EPOCH keys)) (\<lambda>e.
        bind (dict_get log_dict (ITER keys)) (\<lambda>i.
          Inr (EPOCH keys @ ''('' @ py_str ops m @ '') ['' @ py_str ops e @ '']['' @ py_str ops i
               @ '']'' @ [CHR 0x09]))))
      else
        bind (dict_get log_dict (MODE keys)) (\<lambda>m.
        bind (dict_get log_dict (ITER keys)) (\<lambda>i.
          Inr (ITER keys @ ''('' @ py_str ops m @ '') ['' @ py_str ops i @ '']'' @ [CHR 0x09]))))"

text \<open>
  \<^verbatim>\<open>
  if iter_time_key in log_dict.keys():
      self.time_sec_tot += (log_dict[iter_time_key] * self.interval)
      time_sec_avg = self.time_sec_tot / (trainer.iter - self.start_iter + 1)
      eta_sec = time_sec_avg * (trainer.max_iters - trainer.iter - 1)
      eta_str = str(datetime.timedelta(seconds=int(eta_sec)))
      log_str += f'{eta_key}: {eta_str}, '
      log_str += f'{iter_time_key}: {log_dict[iter_time_key]:.3f}, '
      log_str += f'{data_load_time_key}: {log_dict[data_load_time_key]:.3f}, '
      self._logged_keys.extend([iter_time_key, data_load_time_key])
  \<close>
  The result is the hook after the block and the text added to \<^verbatim>\<open>log_str\<close>; the
  first four statements of the block are \<open>eta_block\<close>.
\<close>

definition float_of_num :: "'f pyops \<Rightarrow> 'f num \<Rightarrow> 'f option" where
  "float_of_num ops tot = (case tot of NInt a \<Rightarrow> float_of_int ops a | NFloat x \<Rightarrow> Some x)"

definition eta_block ::
  "'f pyops \<Rightarrow> 'f trainer \<Rightarrow> 'f hook \<Rightarrow> 'f value \<Rightarrow> error + ('f num \<times> string)" where
  "eta_block ops trainer self t =
     bind (py_mul_int ops t (interval self)) (\<lambda>prod.
     bind (py_add ops (time_sec_tot self) prod) (\<lambda>tot.
     bind (case start_iter self of
             None \<Rightarrow> Inl (AttributeError ''start_iter'')
           | Some s \<Rightarrow> Inr s) (\<lambda>start.
     bind (py_truediv_int ops tot (iter trainer - start + 1)) (\<lambda>time_sec_avg.
     bind (fmul_int ops time_sec_avg (max_iters trainer - iter trainer - 1)) (\<lambda>eta_sec.
     bind (int_of_float ops eta_sec) (\<lambda>secs.
     bind (timedelta_str secs) (\<lambda>eta_str.
       Inr (tot, eta_str))))))))"

definition timing ::
  "'f pyops \<Rightarrow> log_keys \<Rightarrow> 'f trainer \<Rightarrow> 'f hook \<Rightarrow> 'f pydict \<Rightarrow> error + ('f hook \<times> string)" where
  "timing ops keys trainer self log_dict =
     (if ITER_TIME keys \<in> set (dict_keys log_dict) then
        bind (dict_get log_dict (ITER_TIME keys)) (\<lambda>t.
        bind (eta_block ops trainer self t) (\<lambda>(tot, eta_str).
        bind (py_format ops ''.3f'' t) (\<lambda>ts.
        bind (dict_get log_dict (DATA_LOAD_TIME keys)) (\<lambda>d.
        bind (py_format ops ''.3f'' d) (\<lambda>ds.
          Inr (self\<lparr>time_sec_tot := tot,
                     logged_keys := logged_keys self @ [ITER_TIME keys, DATA_LOAD_TIME keys]\<rparr>,
               ETA keys @ '': '' @ eta_str @ '', ''
               @ ITER_TIME keys @ '': '' @ ts @ '', ''
               @ DATA_LOAD_TIME keys @ '': '' @ ds @ '', ''))))))
      else Inr (self, []))"

text \<open>
  \<^verbatim>\<open>
  log_items = []
  for name, val in log_dict.items():
      if name in self._logged_keys:
          continue
      if isinstance(val, float):
          val = f'{val:.4f}'
      log_items.append(f'{name}: {val}')
  log_str += ', '.join(log_items)
  \<close>
\<close>

definition log_item :: "'f pyops \<Rightarrow> string \<times> 'f value \<Rightarrow> string" where
  "log_item ops nv =
     (case nv of (name, val) \<Rightarrow>
        name @ '': '' @ (case val of VFloat x \<Rightarrow> fformat ops ''.4f'' x | _ \<Rightarrow> py_str ops val))"

definition remaining :: "'f hook \<Rightarrow> 'f pydict \<Rightarrow> 'f pydict" where
  "remaining self log_dict = filter (\<lambda>nv. fst nv \<notin> set (logged_keys self)) log_dict"

definition log_items :: "'f pyops \<Rightarrow> 'f hook \<Rightarrow> 'f pydict \<Rightarrow> string list" where
  "log_items ops self log_dict = map (log_item ops) (remaining self log_dict)"

text \<open>
  The text of the line and the hook after the call: \<^verbatim>\<open>_log_info\<close> up to its last
  statement.
\<close>

definition render ::
  "'f pyops \<Rightarrow> log_keys \<Rightarrow> 'f trainer \<Rightarrow> 'f hook \<Rightarrow> 'f pydict \<Rightarrow> error + ('f hook \<times> string)" where
  "render ops keys trainer self log_dict =
     bind (dict_get log_dict (MODE keys)) (\<lambda>m.
       bind
         (if m = VStr (TRAIN keys) then
            bind (dict_get log_dict (LR keys)) (\<lambda>lr.
            bind (lr_str ops keys lr) (\<lambda>lrs.
            bind (train_prefix ops keys trainer self log_dict) (\<lambda>prefix.
            bind (timing ops keys trainer
                    (self\<lparr>logged_keys := logged_keys self
                              @ [LR keys, MODE keys, ITER keys, EPOCH keys]\<rparr>) log_dict)
              (\<lambda>(self', times). Inr (self', prefix @ lrs @ '', '' @ times)))))
          else
            bind (eval_prefix ops keys self log_dict) (\<lambda>prefix.
              Inr (self\<lparr>logged_keys := logged_keys self @ [MODE keys, ITER keys, EPOCH keys]\<rparr>,
                   prefix)))
         (\<lambda>(self', log_str). Inr (self', log_str @ join '', '' (log_items ops self' log_dict))))"

text \<open>
  \<^verbatim>\<open>
  if is_master():
      trainer.logger.info(log_str)
  \<close>
\<close>

definition log_info ::
  "'f pyops \<Rightarrow> log_keys \<Rightarrow> nat \<Rightarrow> 'f trainer \<Rightarrow> 'f hook \<Rightarrow> 'f pydict \<Rightarrow> 'f world
     \<Rightarrow> error + ('f hook \<times> 'f world)" where
  "log_info ops keys rank trainer self log_dict w =
     bind (render ops keys trainer self log_dict) (\<lambda>(self', log_str).
       Inr (self', if is_master rank then logger_info log_str w else w))"

section \<open>\<^verbatim>\<open>log\<close>\<close>

text \<open>
  \<^verbatim>\<open>
  def log(self, trainer):
      cur_iter = self.get_iter(trainer, inner_iter=True)
      log_dict = OrderedDict(
          mode=trainer.mode, epoch=self.get_epoch(trainer), iter=cur_iter)
      if torch.cuda.is_available():
          log_dict[LogKeys.MEMORY] = self._get_max_memory(trainer)
      log_dict = dict(log_dict, **trainer.log_buffer.output)
      self._log_info(log_dict, trainer)
      self._dump_log(log_dict)
      return log_dict
  \<close>
  \<^verbatim>\<open>get_iter\<close> and \<^verbatim>\<open>get_epoch\<close> belong to the base class, outside this file: their
  results are the arguments \<open>cur_iter\<close> and \<open>epoch\<close>. \<open>cuda\<close> is \<open>None\<close> when no
  accelerator is available, and otherwise the local readings of all processes.
\<close>

definition dict_update :: "'f pydict \<Rightarrow> 'f pydict \<Rightarrow> 'f pydict" where
  "dict_update d other = foldl (\<lambda>acc (k, v). dict_set acc k v) d other"

definition snapshot ::
  "log_keys \<Rightarrow> (nat \<Rightarrow> int list \<Rightarrow> int) \<Rightarrow> nat list option \<Rightarrow> nat \<Rightarrow> 'f trainer \<Rightarrow> int \<Rightarrow> int
     \<Rightarrow> error + 'f pydict" where
  "snapshot keys nondst cuda rank trainer cur_iter epoch =
     (let log_dict = [(''mode'', VStr (mode trainer)), (''epoch'', VInt epoch),
                      (''iter'', VInt cur_iter)]
      in bind (case cuda of
                 None \<Rightarrow> Inr log_dict
               | Some mems \<Rightarrow>
                   bind (get_max_memory nondst mems rank) (\<lambda>mem.
                     Inr (dict_set log_dict (MEMORY keys) (VInt mem))))
           (\<lambda>log_dict. Inr (dict_update log_dict (log_buffer_output trainer))))"

definition log ::
  "'f pyops \<Rightarrow> log_keys \<Rightarrow> (nat \<Rightarrow> int list \<Rightarrow> int) \<Rightarrow> nat list option \<Rightarrow> nat \<Rightarrow> 'f trainer
     \<Rightarrow> int \<Rightarrow> int \<Rightarrow> 'f hook \<Rightarrow> 'f world \<Rightarrow> error + ('f pydict \<times> 'f hook \<times> 'f world)" where
  "log ops keys nondst cuda rank trainer cur_iter epoch self w =
     bind (snapshot keys nondst cuda rank trainer cur_iter epoch) (\<lambda>log_dict.
     bind (log_info ops keys rank trainer self log_dict w) (\<lambda>(self', w1).
     bind (dump_log ops rank self' log_dict w1) (\<lambda>w2.
       Inr (log_dict, self', w2))))"

section \<open>What the spec promises, in its own words\<close>

text \<open>
  The copy written by the JSON-append operation: a float is rounded to 5 decimals, a list
  is copied element by element in the same way, and any other value is unchanged.
\<close>

fun rounded_copy :: "'f pyops \<Rightarrow> 'f value \<Rightarrow> 'f value \<Rightarrow> bool" where
  "rounded_copy ops (VFloat x) w = (w = VFloat (fround ops x 5))"
| "rounded_copy ops (VList xs) w =
     (case w of VList ys \<Rightarrow> list_all2 (rounded_copy ops) xs ys | _ \<Rightarrow> False)"
| "rounded_copy ops v w = (w = v)"

text \<open>
  The duration string: \<^verbatim>\<open>H:MM:SS\<close>, after a day count when the duration is not within
  a single day.
\<close>

definition duration :: "int \<Rightarrow> string" where
  "duration secs =
     (let days = secs div 86400;
          h = secs mod 86400 div 3600;
          m = secs mod 3600 div 60;
          s = secs mod 60
      in (if 0 \<le> secs \<and> secs < 86400 then []
          else str_int days @ (if days = 1 \<or> days = - 1 then '' day, '' else '' days, ''))
         @ str_int h @ '':'' @ pad2 m @ '':'' @ pad2 s)"

text \<open>A timing is a number: an integer or a float.\<close>

definition num_of_value :: "'f value \<Rightarrow> 'f num option" where
  "num_of_value v = (case v of VInt i \<Rightarrow> Some (NInt i) | VFloat x \<Rightarrow> Some (NFloat x) | _ \<Rightarrow> None)"

text \<open>The lines of a file; none when the file is absent.\<close>

definition read_lines :: "string \<Rightarrow> 'f world \<Rightarrow> 'f pydict list" where
  "read_lines path w = (case files w path of None \<Rightarrow> [] | Some ls \<Rightarrow> ls)"

section \<open>Successive ticks\<close>

text \<open>
  The trainer calls the hook once per logging tick, on the same hook object: the hook
  left by one call is the hook of the next. \<open>ticks\<close> renders a sequence of snapshots
  and returns the lines.
\<close>

fun ticks ::
  "'f pyops \<Rightarrow> log_keys \<Rightarrow> 'f trainer \<Rightarrow> 'f hook \<Rightarrow> 'f pydict list \<Rightarrow> error + ('f hook \<times> string list)"
  where
  "ticks ops keys trainer self [] = Inr (self, [])"
| "ticks ops keys trainer self (log_dict # rest) =
     bind (render ops keys trainer self log_dict) (\<lambda>(self', line).
     bind (ticks ops keys trainer self' rest) (\<lambda>(self'', lines).
       Inr (self'', line # lines)))"

section \<open>An interpretation of the float operations\<close>

text \<open>
  To evaluate the model on concrete inputs, floats are read as rationals with exact
  arithmetic. Formatting rounds the exact value half to even, as CPython does. On the
  inputs used in this file no operation of binary floating point rounds differently,
  and the strings are the ones CPython prints.
\<close>

definition round_half_even :: "rat \<Rightarrow> int" where
  "round_half_even x =
     (let f = \<lfloor>x\<rfloor>; r = x - of_int f in
      if r < 1 / 2 then f else if 1 / 2 < r then f + 1 else if even f then f else f + 1)"

definition zero_pad :: "nat \<Rightarrow> string \<Rightarrow> string" where
  "zero_pad n s = replicate (n - length s) CHR ''0'' @ s"

definition fmt_fixed :: "nat \<Rightarrow> rat \<Rightarrow> string" where
  "fmt_fixed n x =
     (let q = nat (round_half_even (\<bar>x\<bar> * 10 ^ n)) in
      (if x < 0 then ''-'' else []) @ str_nat (q div 10 ^ n) @ ''.''
      @ zero_pad n (str_nat (q mod 10 ^ n)))"

fun exp10_search :: "nat \<Rightarrow> rat \<Rightarrow> int \<Rightarrow> int" where
  "exp10_search 0 x e = e"
| "exp10_search (Suc fuel) x e =
     (if x < 1 then exp10_search fuel (x * 10) (e - 1)
      else if 10 \<le> x then exp10_search fuel (x / 10) (e + 1)
      else e)"

definition fmt_sci :: "nat \<Rightarrow> rat \<Rightarrow> string" where
  "fmt_sci n x =
     (if x = 0 then ''0.'' @ replicate n CHR ''0'' @ ''e+00''
      else
        (let e0 = exp10_search 400 \<bar>x\<bar> 0;
             m0 = nat (round_half_even (if e0 < 0 then \<bar>x\<bar> * 10 ^ nat (- e0) * 10 ^ n
                                         else \<bar>x\<bar> / 10 ^ nat e0 * 10 ^ n));
             e = (if m0 < 10 ^ (n + 1) then e0 else e0 + 1);
             m = (if m0 < 10 ^ (n + 1) then m0 else m0 div 10)
         in (if x < 0 then ''-'' else []) @ str_nat (m div 10 ^ n) @ ''.''
            @ zero_pad n (str_nat (m mod 10 ^ n))
            @ ''e'' @ (if e < 0 then ''-'' else ''+'') @ zero_pad 2 (str_nat (nat \<bar>e\<bar>))))"

text \<open>
  \<^verbatim>\<open>repr\<close> of a float: the shortest decimal that reads back as the same float; for a
  value with at most 17 decimals, of magnitude between \<^verbatim>\<open>1e-4\<close> and \<^verbatim>\<open>1e16\<close>, that is the
  decimal itself. \<^verbatim>\<open>repr\<close> of a string without quotes, backslashes or control
  characters is the string between single quotes.
\<close>

definition rat_repr :: "rat \<Rightarrow> string" where
  "rat_repr x =
     (case find (\<lambda>n. x * 10 ^ n = of_int \<lfloor>x * 10 ^ n\<rfloor>) [1..<18] of
        None \<Rightarrow> fmt_fixed 17 x
      | Some n \<Rightarrow> fmt_fixed n x)"

fun rat_value_repr :: "rat value \<Rightarrow> string" where
  "rat_value_repr VNone = ''None''"
| "rat_value_repr (VInt i) = str_int i"
| "rat_value_repr (VFloat x) = rat_repr x"
| "rat_value_repr (VStr s) = [CHR 0x27] @ s @ [CHR 0x27]"
| "rat_value_repr (VList xs) = ''['' @ join '', '' (map rat_value_repr xs) @ '']''"
| "rat_value_repr (VDict d) =
     ''{'' @ join '', '' (map (\<lambda>kv. [CHR 0x27] @ fst kv @ [CHR 0x27] @ '': ''
                                    @ rat_value_repr (snd kv)) d) @ ''}''"

definition rat_format :: "string \<Rightarrow> rat \<Rightarrow> string" where
  "rat_format spec x =
     (if spec = ''.3e'' then fmt_sci 3 x
      else if spec = ''.3f'' then fmt_fixed 3 x
      else if spec = ''.4f'' then fmt_fixed 4 x
      else rat_repr x)"

definition rat_round :: "rat \<Rightarrow> nat \<Rightarrow> rat" where
  "rat_round x ndigits = of_int (round_half_even (x * 10 ^ ndigits)) / 10 ^ ndigits"

definition rat_trunc :: "rat \<Rightarrow> int" where
  "rat_trunc x = (if 0 \<le> x then \<lfloor>x\<rfloor> else \<lceil>x\<rceil>)"

text \<open>An integer converts to a float when it rounds to a finite double.\<close>

definition float_max_int :: int where
  "float_max_int = 2 ^ 1024 - 2 ^ 970"

definition exact_ops :: "rat pyops" where
  "exact_ops =
     \<lparr>float_of_int = (\<lambda>i. if \<bar>i\<bar> < float_max_int then Some (of_int i) else None),
      fadd = (\<lambda>x y. x + y),
      fmul = (\<lambda>x y. x * y),
      fdiv = (\<lambda>x y. x / y),
      int_truediv = (\<lambda>a d. Some (of_int a / of_int d)),
      int_of_float = (\<lambda>x. Inr (rat_trunc x)),
      fformat = rat_format,
      fround = rat_round,
      float_repr = rat_repr,
      container_str = rat_value_repr\<rparr>"

section \<open>A run, for evaluation\<close>

text \<open>
  A trainer at iteration 9 of 100, a hook as \<^verbatim>\<open>before_run\<close> leaves it, and the snapshot of
  a training tick.
\<close>

definition example_trainer :: "rat trainer" where
  "example_trainer =
     \<lparr>work_dir = ''work_dirs/run'', iter = 9, max_iters = 100, iters_per_epoch = 50,
      timestamp = ''20240101_120000'',
      meta = Some [(''seed'', VInt 42), (''scale'', VFloat (123456789 / 1000000000))],
      mode = ''train'',
      log_buffer_output =
        [(''lr'', VFloat (1 / 2)), (''iter_time'', VFloat (1 / 2)),
         (''data_load_time'', VFloat (1 / 4)), (''loss'', VFloat (1 / 8))]\<rparr>"

definition example_hook :: "rat hook" where
  "example_hook =
     \<lparr>by_epoch = True, interval = 10, time_sec_tot = NInt 0, out_dir = Some ''work_dirs/run'',
      logged_keys = [], start_iter = Some 0,
      json_log_path = Some ''work_dirs/run/20240101_120000.log.json''\<rparr>"

definition train_snapshot :: "rat pydict" where
  "train_snapshot =
     [(''mode'', VStr ''train''), (''epoch'', VInt 1), (''iter'', VInt 10),
      (''lr'', VFloat (1 / 2)), (''iter_time'', VFloat (1 / 2)),
      (''data_load_time'', VFloat (1 / 4)), (''loss'', VFloat (1 / 8))]"

definition empty_world :: "rat world" where
  "empty_world = \<lparr>sink = [], dirs = {}, files = (\<lambda>p. None)\<rparr>"

text \<open>
  Further snapshots: a validation tick, a tick with one learning rate per parameter
  group, ticks with only one of the two timing keys, a snapshot with nested values, and
  a snapshot with integer timings, and the snapshot \<^verbatim>\<open>log\<close> builds when the accelerator
  reports \<open>mb\<close> megabytes. \<open>trained_hook\<close> is \<open>example_hook\<close> after the training tick, and
  \<open>used_world\<close> a file system in which the log file already holds a line.
\<close>

definition eval_snapshot :: "rat pydict" where
  "eval_snapshot =
     [(''mode'', VStr ''eval''), (''epoch'', VInt 1), (''iter'', VInt 5),
      (''lr'', VFloat (1 / 2)), (''accuracy'', VFloat (3 / 4))]"

definition trained_hook :: "rat hook" where
  "trained_hook =
     example_hook\<lparr>time_sec_tot := NFloat 5,
                   logged_keys := [''lr'', ''mode'', ''iter'', ''epoch'', ''iter_time'',
                                   ''data_load_time'']\<rparr>"

definition group_snapshot :: "rat pydict" where
  "group_snapshot =
     [(''mode'', VStr ''train''), (''epoch'', VInt 1), (''iter'', VInt 10),
      (''lr'', VDict [(''g0'', VFloat (1 / 2)), (''g1'', VFloat (1 / 4))]),
      (''loss'', VFloat (1 / 8))]"

definition data_load_only_snapshot :: "rat pydict" where
  "data_load_only_snapshot =
     [(''mode'', VStr ''train''), (''epoch'', VInt 1), (''iter'', VInt 10),
      (''lr'', VFloat (1 / 2)), (''data_load_time'', VFloat (1 / 4)),
      (''loss'', VFloat (1 / 8))]"

definition iter_time_only_snapshot :: "rat pydict" where
  "iter_time_only_snapshot =
     [(''mode'', VStr ''train''), (''epoch'', VInt 1), (''iter'', VInt 10),
      (''lr'', VFloat (1 / 2)), (''iter_time'', VFloat (1 / 2)),
      (''loss'', VFloat (1 / 8))]"

definition nested_snapshot :: "rat pydict" where
  "nested_snapshot =
     [(''mode'', VStr ''train''), (''loss'', VFloat (123456789 / 1000000000)),
      (''lr'', VDict [(''g0'', VFloat (123456789 / 1000000000))]),
      (''hist'', VList [VFloat (123456789 / 1000000000),
                        VList [VFloat (123456789 / 1000000000)], VInt 3])]"

definition int_timing_snapshot :: "rat pydict" where
  "int_timing_snapshot =
     [(''mode'', VStr ''train''), (''epoch'', VInt 1), (''iter'', VInt 10),
      (''lr'', VFloat (1 / 2)), (''iter_time'', VInt 2), (''data_load_time'', VInt 1),
      (''loss'', VFloat (1 / 8))]"

definition used_world :: "rat world" where
  "used_world =
     \<lparr>sink = [], dirs = {''work_dirs'', ''work_dirs/run''},
      files = (\<lambda>p. if p = ''work_dirs/run/20240101_120000.log.json''
                    then Some [[(''seed'', VInt 7)]] else None)\<rparr>"

definition memory_snapshot :: "int \<Rightarrow> rat pydict" where
  "memory_snapshot mb =
     [(''mode'', VStr ''train''), (''epoch'', VInt 1), (''iter'', VInt 10),
      (''memory'', VInt mb), (''lr'', VFloat (1 / 2)), (''iter_time'', VFloat (1 / 2)),
      (''data_load_time'', VFloat (1 / 4)), (''loss'', VFloat (1 / 8))]"

section \<open>Properties\<close>

subsection \<open>Auxiliary facts\<close>

lemma dict_set_fresh: "k \<notin> fst ` set d \<Longrightarrow> dict_set d k v = d @ [(k, v)]"
  by (induction d) auto

lemma json_log_foldl:
  "distinct (map fst d) \<Longrightarrow> fst ` set acc \<inter> fst ` set d = {} \<Longrightarrow>
   foldl (\<lambda>json_log (k, v). dict_set json_log k (round_float ops v 5)) acc d =
     acc @ map (\<lambda>(k, v). (k, round_float ops v 5)) d"
proof (induction d arbitrary: acc)
  case Nil
  then show ?case by simp
next
  case (Cons kv d)
  obtain k v where kv: "kv = (k, v)" by (cases kv)
  have fresh: "k \<notin> fst ` set acc" using Cons.prems(2) kv by auto
  have step: "dict_set acc k (round_float ops v 5) = acc @ [(k, round_float ops v 5)]"
    using fresh by (rule dict_set_fresh)
  have disj: "fst ` set (acc @ [(k, round_float ops v 5)]) \<inter> fst ` set d = {}"
    using Cons.prems kv by auto
  have dist: "distinct (map fst d)" using Cons.prems(1) by simp
  show ?case
    using Cons.IH [OF dist disj] by (simp add: kv step)
qed

lemma json_log_of_map:
  "distinct (map fst d) \<Longrightarrow> json_log_of ops d = map (\<lambda>(k, v). (k, round_float ops v 5)) d"
  unfolding json_log_of_def using json_log_foldl [of d "[]" ops] by simp

lemma bind_Inr [simp]: "bind (Inr x) f = f x"
  by (simp add: bind_def)

lemma bind_Inl [simp]: "bind (Inl e) f = Inl e"
  by (simp add: bind_def)

lemma bind_eq_Inr: "bind m f = Inr y \<longleftrightarrow> (\<exists>x. m = Inr x \<and> f x = Inr y)"
  by (cases m) simp_all

lemma dict_get_Inr_key: "dict_get d k = Inr v \<Longrightarrow> k \<in> set (dict_keys d)"
  by (auto simp: dict_get_def dict_keys_def split: option.splits dest: map_of_SomeD intro: rev_image_eqI)

lemma dict_get_missing: "k \<notin> set (dict_keys d) \<Longrightarrow> dict_get d k = Inl (KeyError k)"
proof -
  assume "k \<notin> set (dict_keys d)"
  then have "map_of d k = None" by (simp add: map_of_eq_None_iff dict_keys_def)
  then show ?thesis by (simp add: dict_get_def)
qed

lemma timing_cases:
  assumes "timing ops keys trainer s d = Inr (s', tms)"
  shows "(ITER_TIME keys \<notin> set (dict_keys d) \<and> s' = s \<and> tms = []) \<or>
         (ITER_TIME keys \<in> set (dict_keys d) \<and>
          (\<exists>tot. s' = s\<lparr>time_sec_tot := tot,
                          logged_keys := logged_keys s @ [ITER_TIME keys, DATA_LOAD_TIME keys]\<rparr>))"
  using assms
  by (auto simp: timing_def bind_eq_Inr split: if_splits)

lemma render_train:
  assumes "dict_get log_dict (MODE keys) = Inr (VStr (TRAIN keys))"
      and "render ops keys trainer self log_dict = Inr (self', line)"
  shows "\<exists>lr lrs prefix tms.
           dict_get log_dict (LR keys) = Inr lr \<and> lr_str ops keys lr = Inr lrs \<and>
           train_prefix ops keys trainer self log_dict = Inr prefix \<and>
           timing ops keys trainer
             (self\<lparr>logged_keys := logged_keys self @ [LR keys, MODE keys, ITER keys, EPOCH keys]\<rparr>)
             log_dict = Inr (self', tms) \<and>
           line = prefix @ lrs @ '', '' @ tms @ join '', '' (log_items ops self' log_dict)"
  using assms
  by (auto simp: render_def bind_eq_Inr)

lemma render_eval:
  assumes "dict_get log_dict (MODE keys) = Inr m" and "m \<noteq> VStr (TRAIN keys)"
      and "render ops keys trainer self log_dict = Inr (self', line)"
  shows "\<exists>prefix.
           eval_prefix ops keys self log_dict = Inr prefix \<and>
           self' = self\<lparr>logged_keys := logged_keys self @ [MODE keys, ITER keys, EPOCH keys]\<rparr> \<and>
           line = prefix @ join '', '' (log_items ops self' log_dict)"
  using assms
  by (auto simp: render_def bind_eq_Inr)

lemma render_mode:
  assumes "render ops keys trainer self log_dict = Inr (self', line)"
  shows "\<exists>m. dict_get log_dict (MODE keys) = Inr m"
  using assms by (auto simp: render_def bind_eq_Inr)

lemma render_marks:
  assumes "render ops keys trainer self log_dict = Inr (self', line)"
  shows "\<exists>head consumed.
           line = head @ join '', '' (log_items ops self' log_dict) \<and>
           logged_keys self' = logged_keys self @ consumed \<and>
           json_log_path self' = json_log_path self \<and>
           {MODE keys, ITER keys, EPOCH keys} \<subseteq> set consumed \<and>
           (dict_get log_dict (MODE keys) = Inr (VStr (TRAIN keys)) \<longrightarrow>
              LR keys \<in> set consumed \<and>
              (ITER_TIME keys \<in> set (dict_keys log_dict) \<longrightarrow>
                 ITER_TIME keys \<in> set consumed \<and> DATA_LOAD_TIME keys \<in> set consumed))"
proof -
  obtain m where m: "dict_get log_dict (MODE keys) = Inr m"
    using render_mode [OF assms] by blast
  show ?thesis
  proof (cases "m = VStr (TRAIN keys)")
    case True
    from render_train [OF m [unfolded True] assms]
    obtain lr lrs prefix tms where
      t: "timing ops keys trainer
            (self\<lparr>logged_keys := logged_keys self @ [LR keys, MODE keys, ITER keys, EPOCH keys]\<rparr>)
            log_dict = Inr (self', tms)"
      and l: "line = prefix @ lrs @ '', '' @ tms @ join '', '' (log_items ops self' log_dict)"
      by blast
    from timing_cases [OF t] show ?thesis
    proof
      assume a: "ITER_TIME keys \<notin> set (dict_keys log_dict) \<and>
        self' = self\<lparr>logged_keys := logged_keys self @ [LR keys, MODE keys, ITER keys, EPOCH keys]\<rparr> \<and>
        tms = []"
      show ?thesis
        apply (rule exI [of _ "prefix @ lrs @ '', '' @ tms"])
        apply (rule exI [of _ "[LR keys, MODE keys, ITER keys, EPOCH keys]"])
        using a l by simp
    next
      assume a: "ITER_TIME keys \<in> set (dict_keys log_dict) \<and>
        (\<exists>tot. self' = self\<lparr>logged_keys := logged_keys self @ [LR keys, MODE keys, ITER keys, EPOCH keys]\<rparr>
           \<lparr>time_sec_tot := tot,
            logged_keys := logged_keys (self\<lparr>logged_keys := logged_keys self @ [LR keys, MODE keys, ITER keys, EPOCH keys]\<rparr>)
               @ [ITER_TIME keys, DATA_LOAD_TIME keys]\<rparr>)"
      show ?thesis
        apply (rule exI [of _ "prefix @ lrs @ '', '' @ tms"])
        apply (rule exI [of _ "[LR keys, MODE keys, ITER keys, EPOCH keys, ITER_TIME keys, DATA_LOAD_TIME keys]"])
        using a l by auto
    qed
  next
    case False
    from render_eval [OF m False assms] obtain prefix where
      "self' = self\<lparr>logged_keys := logged_keys self @ [MODE keys, ITER keys, EPOCH keys]\<rparr>"
      "line = prefix @ join '', '' (log_items ops self' log_dict)"
      by blast
    then show ?thesis
      apply -
      apply (rule exI [of _ prefix])
      apply (rule exI [of _ "[MODE keys, ITER keys, EPOCH keys]"])
      using m False by auto
  qed
qed

lemma remaining_excludes: "set (logged_keys s) \<inter> fst ` set (remaining s d) = {}"
  by (auto simp: remaining_def)

lemma ticks_logged_keys:
  "ticks ops keys trainer self ds = Inr (self', lines) \<Longrightarrow>
   \<exists>marked. logged_keys self' = logged_keys self @ marked"
proof (induction ds arbitrary: self lines)
  case Nil
  then show ?case by simp
next
  case (Cons d ds)
  from Cons.prems obtain s1 line ls where
    r: "render ops keys trainer self d = Inr (s1, line)"
    and t: "ticks ops keys trainer s1 ds = Inr (self', ls)"
    by (auto simp: bind_eq_Inr)
  from render_marks [OF r] obtain c where c: "logged_keys s1 = logged_keys self @ c" by blast
  from Cons.IH [OF t] obtain m where "logged_keys self' = logged_keys s1 @ m" by blast
  with c show ?case by simp
qed

lemma lr_segments_Inr:
  "lr_segments ops keys groups = Inr segs \<Longrightarrow>
   \<exists>vals. map (\<lambda>kv. py_format ops ''.3e'' (snd kv)) groups = map Inr vals \<and>
          segs = map2 (\<lambda>kv s. LR keys @ ''_'' @ fst kv @ '': '' @ s) groups vals"
proof (induction groups arbitrary: segs)
  case Nil
  then show ?case by simp
next
  case (Cons kv groups)
  obtain k v where kv: "kv = (k, v)" by (cases kv)
  from Cons.prems kv obtain s rest where
    s: "py_format ops ''.3e'' v = Inr s"
    and r: "lr_segments ops keys groups = Inr rest"
    and e: "segs = (LR keys @ ''_'' @ k @ '': '' @ s) # rest"
    by (auto simp: bind_eq_Inr)
  from Cons.IH [OF r] obtain vals where
    v: "map (\<lambda>kv. py_format ops ''.3e'' (snd kv)) groups = map Inr vals"
    and m: "rest = map2 (\<lambda>kv s. LR keys @ ''_'' @ fst kv @ '': '' @ s) groups vals"
    by blast
  show ?case
    by (rule exI [of _ "s # vals"]) (simp add: kv s v e m)
qed

lemma mod_div_60:
  assumes "0 \<le> c"
  shows "(x::int) mod (60 * c) div 60 = x div 60 mod c"
proof -
  have "x mod (60 * c) = 60 * (x div 60 mod c) + x mod 60"
    using assms by (rule zmod_zmult2_eq)
  then show ?thesis by simp
qed

lemma minutes_eq: "(secs::int) mod 86400 div 60 mod 60 = secs mod 3600 div 60"
proof -
  have a: "secs mod 86400 div 60 = secs div 60 mod 1440"
    using mod_div_60 [of 1440 secs] by simp
  have b: "secs mod 3600 div 60 = secs div 60 mod 60"
    using mod_div_60 [of 60 secs] by simp
  have c: "secs div 60 mod 1440 mod 60 = secs div 60 mod 60"
    by (rule mod_mod_cancel) simp
  show ?thesis by (simp only: a b c)
qed

lemma seconds_eq: "(secs::int) mod 86400 mod 60 = secs mod 60"
  by (rule mod_mod_cancel) simp

lemma days_zero: "(secs::int) div 86400 = 0 \<longleftrightarrow> 0 \<le> secs \<and> secs < 86400"
  by (auto simp: zdiv_eq_0_iff)

lemma hms_str_mod:
  "hms_str (secs mod 86400) =
     str_int (secs mod 86400 div 3600) @ '':'' @ pad2 (secs mod 3600 div 60) @ '':''
     @ pad2 (secs mod 60)"
  by (simp only: hms_str_def minutes_eq seconds_eq)

lemma duration_alt:
  "duration secs =
     (if secs div 86400 = 0 then hms_str (secs mod 86400)
      else str_int (secs div 86400) @ '' day''
           @ (if \<bar>secs div 86400\<bar> = 1 then [] else ''s'') @ '', ''
           @ hms_str (secs mod 86400))"
proof -
  have "\<bar>secs div 86400\<bar> = 1 \<longleftrightarrow> secs div 86400 = 1 \<or> secs div 86400 = - 1"
    by (auto simp: abs_if)
  then show ?thesis
    by (simp only: duration_def Let_def hms_str_mod days_zero [symmetric]) simp
qed

lemma duration_timedelta:
  assumes "\<bar>secs div 86400\<bar> \<le> 999999999"
  shows "timedelta_str secs = Inr (duration secs)"
proof -
  have "\<not> 999999999 < \<bar>secs div 86400\<bar>" using assms by simp
  then show ?thesis
    by (simp only: timedelta_str_def Let_def duration_alt if_False split: if_splits) simp
qed

lemma render_json_log_path:
  "render ops keys trainer self log_dict = Inr (self', line) \<Longrightarrow>
   json_log_path self' = json_log_path self"
  using render_marks by blast

lemma round_float_rounded_copy: "rounded_copy ops v (round_float ops v 5)"
proof (induction v)
  case (VList xs)
  then show ?case
    by (simp add: list_all2_map2 list_all2_same)
qed simp_all

lemma read_lines_append:
  "read_lines path (append_line path obj w) = read_lines path w @ [obj]"
  by (simp add: read_lines_def append_line_def)

lemma all_ok_mem_mb:
  "\<forall>m\<in>set mems. m div (1024 * 1024) < 2 ^ 31 \<Longrightarrow>
   all_ok (map mem_mb_of mems) = Some (map (\<lambda>m. int (m div (1024 * 1024))) mems)"
  by (induction mems) (simp_all add: mem_mb_of_def)

lemma num_of_value_cases:
  assumes "num_of_value t = Some tn"
  shows "(\<exists>i. t = VInt i \<and> tn = NInt i) \<or> (\<exists>x. t = VFloat x \<and> tn = NFloat x)"
  using assms by (cases t) (auto simp: num_of_value_def)

lemma py_format_num:
  assumes "num_of_value v = Some vn" and "float_of_num ops vn = Some vf"
  shows "py_format ops spec v = Inr (fformat ops spec vf)"
  using num_of_value_cases [OF assms(1)] assms(2)
  by (auto simp: py_format_def float_of_num_def)

lemma dict_set_keys:
  "map fst (dict_set d k v) = (if k \<in> fst ` set d then map fst d else map fst d @ [k])"
proof (induction d)
  case Nil
  then show ?case by simp
next
  case (Cons kv d)
  obtain k' v' where kv: "kv = (k', v')" by (cases kv)
  show ?case
  proof (cases "k' = k")
    case True
    then show ?thesis by (simp add: kv)
  next
    case False
    then show ?thesis using Cons.IH by (simp add: kv)
  qed
qed

lemma dict_set_distinct: "distinct (map fst d) \<Longrightarrow> distinct (map fst (dict_set d k v))"
  by (simp add: dict_set_keys)

lemma dict_update_distinct:
  "distinct (map fst d) \<Longrightarrow> distinct (map fst (dict_update d other))"
  unfolding dict_update_def
  by (induction other arbitrary: d) (auto simp: dict_set_distinct)

lemma snapshot_distinct:
  assumes "snapshot keys nondst cuda rank trainer cur_iter epoch = Inr log_dict"
  shows "distinct (map fst log_dict)"
proof -
  define base :: "'a pydict" where
    "base = [(''mode'', VStr (mode trainer)), (''epoch'', VInt epoch), (''iter'', VInt cur_iter)]"
  have b: "distinct (map fst base)"
    by (simp add: base_def)
  show ?thesis
  proof (cases cuda)
    case None
    with assms have "log_dict = dict_update base (log_buffer_output trainer)"
      by (simp add: snapshot_def Let_def base_def)
    with b show ?thesis by (simp add: dict_update_distinct)
  next
    case (Some mems)
    with assms obtain mem where
      "log_dict = dict_update (dict_set base (MEMORY keys) (VInt mem)) (log_buffer_output trainer)"
      by (auto simp: snapshot_def Let_def base_def bind_eq_Inr simp del: dict_set.simps)
    with b show ?thesis by (simp add: dict_update_distinct dict_set_distinct del: dict_set.simps)
  qed
qed

lemma strip_slashes_Nil: "strip_slashes p = [] \<longleftrightarrow> p = []"
proof (cases "list_all (\<lambda>c. c = CHR ''/'') p")
  case True
  then show ?thesis by (simp add: strip_slashes_def)
next
  case False
  then have "dropWhile (\<lambda>c. c = CHR ''/'') (rev p) \<noteq> []"
    by (auto simp: list_all_iff)
  with False show ?thesis by (auto simp: strip_slashes_def)
qed

lemma strip_slashes_stripped:
  assumes "\<not> list_all (\<lambda>c. c = CHR ''/'') p"
  shows "\<not> list_all (\<lambda>c. c = CHR ''/'') (strip_slashes p)"
    and "strip_slashes (strip_slashes p) = strip_slashes p"
proof -
  let ?P = "\<lambda>c. c = CHR ''/''"
  let ?r = "dropWhile ?P (rev p)"
  have s: "strip_slashes p = rev ?r"
    using assms by (simp add: strip_slashes_def)
  have ne: "?r \<noteq> []"
    using assms by (auto simp: list_all_iff)
  then have h: "\<not> ?P (hd ?r)"
    by (rule hd_dropWhile)
  from ne have "hd ?r \<in> set ?r" by simp
  with h show n: "\<not> list_all ?P (strip_slashes p)"
    by (auto simp: s list_all_iff)
  have d: "dropWhile ?P ?r = ?r"
    using ne h by (cases ?r) auto
  have "strip_slashes (strip_slashes p) = rev (dropWhile ?P (rev (strip_slashes p)))"
    using n by (simp only: strip_slashes_def [of "strip_slashes p"] if_False)
  also have "\<dots> = rev ?r"
    by (simp only: s rev_rev_ident d)
  finally show "strip_slashes (strip_slashes p) = strip_slashes p"
    by (simp only: s)
qed

lemma list_all_None_not_ex:
  "list_all (\<lambda>a. f a = None) xs \<Longrightarrow> \<not> list_ex (\<lambda>a. f a \<noteq> None) xs"
  by (induction xs) auto

lemma makedirs_fresh:
  assumes "\<not> osp_exists dir w" and "dir \<noteq> []"
      and "list_all (\<lambda>a. files w a = None) (strip_slashes dir # ancestors (strip_slashes dir))"
  shows "makedirs dir w =
           Inr (w\<lparr>dirs := dirs w \<union> set (ancestors (strip_slashes dir)) \<union> {strip_slashes dir}\<rparr>)"
proof -
  let ?q = "strip_slashes dir"
  from assms(1,2) have na: "\<not> list_all (\<lambda>c. c = CHR ''/'') dir" and nd: "?q \<notin> dirs w"
    by (auto simp: osp_exists_def)
  have q: "?q \<noteq> []" using assms(2) by (simp add: strip_slashes_Nil)
  have e: "\<not> osp_exists ?q w"
    using strip_slashes_stripped [OF na] nd assms(3) by (simp add: osp_exists_def)
  have f: "\<not> list_ex (\<lambda>a. files w a \<noteq> None) (ancestors ?q)"
  proof -
    have "list_all (\<lambda>a. files w a = None) (ancestors ?q)"
      using assms(3) by simp
    then show ?thesis by (rule list_all_None_not_ex)
  qed
  show ?thesis
    unfolding makedirs_def Let_def
    by (simp only: q e f if_False)
qed

subsection \<open>Evaluation on the example run\<close>

lemma exact_ops_simps:
  "fadd exact_ops x y = x + y"
  "fmul exact_ops x y = x * y"
  "fdiv exact_ops x y = x / y"
  "int_of_float exact_ops x = Inr (rat_trunc x)"
  "int_truediv exact_ops a b = Some (of_int a / of_int b)"
  "fround exact_ops = rat_round"
  "fformat exact_ops = rat_format"
  by (simp_all add: exact_ops_def)

lemma float_max_int_ge: "2 ^ 64 \<le> float_max_int"
  by (simp add: float_max_int_def)

lemma exact_float_of_int:
  "\<bar>i\<bar> < 2 ^ 64 \<Longrightarrow> float_of_int exact_ops i = Some (of_int i)"
  using float_max_int_ge by (simp add: exact_ops_def)

lemma rat_format_example1: "rat_format ''.3e'' (1 / 2) = ''5.000e-01''"
  by code_simp

lemma rat_format_example2: "rat_format ''.3e'' (1 / 4) = ''2.500e-01''"
  by code_simp

lemma rat_format_example3: "rat_format ''.3f'' (1 / 2) = ''0.500''"
  by (simp add: rat_format_def fmt_fixed_def round_half_even_def zero_pad_def
        str_nat.simps Let_def)

lemma rat_format_example4: "rat_format ''.3f'' (1 / 4) = ''0.250''"
  by (simp add: rat_format_def fmt_fixed_def round_half_even_def zero_pad_def
        str_nat.simps Let_def)

lemma rat_format_example5: "rat_format ''.4f'' (1 / 2) = ''0.5000''"
  by (simp add: rat_format_def fmt_fixed_def round_half_even_def zero_pad_def
        str_nat.simps Let_def)

lemma rat_format_example6: "rat_format ''.4f'' (1 / 4) = ''0.2500''"
  by (simp add: rat_format_def fmt_fixed_def round_half_even_def zero_pad_def
        str_nat.simps Let_def)

lemma rat_format_example7: "rat_format ''.4f'' (1 / 8) = ''0.1250''"
  by (simp add: rat_format_def fmt_fixed_def round_half_even_def zero_pad_def
        str_nat.simps Let_def)

lemma rat_format_example8: "rat_format ''.4f'' (3 / 4) = ''0.7500''"
  by (simp add: rat_format_def fmt_fixed_def round_half_even_def zero_pad_def
        str_nat.simps Let_def)

lemmas rat_format_examples = rat_format_example1 rat_format_example2 rat_format_example3 rat_format_example4 rat_format_example5 rat_format_example6 rat_format_example7 rat_format_example8

lemma rat_round_example: "rat_round (123456789 / 1000000000) 5 = 6173 / 50000"
  by code_simp

lemma str_int_examples:
  "str_int 1 = ''1''" "str_int 5 = ''5''" "str_int 10 = ''10''" "str_int 50 = ''50''"
  "str_int 100 = ''100''" "str_int 200 = ''200''"
  by (simp_all add: str_int_def str_nat.simps)

lemma duration_45: "duration 45 = ''0:00:45''"
  by (simp add: duration_def Let_def pad2_def str_int_def str_nat.simps)

lemmas eval_defs = dict_get_def dict_keys_def LogKeys_def train_snapshot_def example_hook_def
  example_trainer_def eval_snapshot_def trained_hook_def group_snapshot_def
  data_load_only_snapshot_def iter_time_only_snapshot_def memory_snapshot_def

lemmas render_defs = render_def timing_def eta_block_def lr_str_def train_prefix_def
  eval_prefix_def py_format_def py_str_def py_mul_int_def py_add_def py_truediv_int_def
  fmul_int_def log_items_def log_item_def remaining_def exact_ops_simps exact_float_of_int
  rat_format_examples str_int_examples rat_trunc_def duration_timedelta duration_45

lemma render_train_example:
  "render exact_ops LogKeys example_trainer example_hook train_snapshot =
     Inr (trained_hook,
          ''epoch [1][10/50]'' @ [CHR 0x09]
          @ ''lr: 5.000e-01, eta: 0:00:45, iter_time: 0.500, data_load_time: 0.250, loss: 0.1250'')"
  by (simp add: render_defs eval_defs)

lemma render_eval_fresh_example:
  "render exact_ops LogKeys example_trainer example_hook eval_snapshot =
     Inr (example_hook\<lparr>logged_keys := [''mode'', ''iter'', ''epoch'']\<rparr>,
          ''epoch(eval) [1][5]'' @ [CHR 0x09] @ ''lr: 0.5000, accuracy: 0.7500'')"
  by (simp add: render_defs eval_defs)

lemma render_eval_later_example:
  "render exact_ops LogKeys example_trainer trained_hook eval_snapshot =
     Inr (trained_hook\<lparr>logged_keys := logged_keys trained_hook @ [''mode'', ''iter'', ''epoch'']\<rparr>,
          ''epoch(eval) [1][5]'' @ [CHR 0x09] @ ''accuracy: 0.7500'')"
  by (simp add: render_defs eval_defs)

lemma dump_log_example:
  "dump_log exact_ops 0 example_hook nested_snapshot empty_world =
     Inr (empty_world\<lparr>files := (files empty_world)
            (''work_dirs/run/20240101_120000.log.json'' \<mapsto>
               [[(''mode'', VStr ''train''), (''loss'', VFloat (6173 / 50000)),
                 (''lr'', VDict [(''g0'', VFloat (123456789 / 1000000000))]),
                 (''hist'', VList [VFloat (6173 / 50000), VList [VFloat (6173 / 50000)],
                                   VInt 3])]])\<rparr>)"
  by (simp add: dump_log_def json_log_of_def is_master_def example_hook_def nested_snapshot_def
        empty_world_def append_line_def exact_ops_simps rat_round_example)

lemma render_group_example:
  "render exact_ops LogKeys example_trainer example_hook group_snapshot =
     Inr (example_hook\<lparr>logged_keys := [''lr'', ''mode'', ''iter'', ''epoch'']\<rparr>,
          ''epoch [1][10/50]'' @ [CHR 0x09] @ ''lr_g0: 5.000e-01 lr_g1: 2.500e-01, loss: 0.1250'')"
  by (simp add: render_defs eval_defs)

lemma render_memory_example:
  "render exact_ops LogKeys example_trainer example_hook (memory_snapshot mb) =
     Inr (trained_hook,
          ''epoch [1][10/50]'' @ [CHR 0x09]
          @ ''lr: 5.000e-01, eta: 0:00:45, iter_time: 0.500, data_load_time: 0.250, memory: ''
          @ str_int mb @ '', loss: 0.1250'')"
  by (simp add: render_defs eval_defs)

lemma snapshot_example:
  "snapshot LogKeys keep_local (Some [209715200, 104857600]) 0 example_trainer 10 1 =
     Inr (memory_snapshot 200)"
  "snapshot LogKeys keep_local (Some [209715200, 104857600]) 1 example_trainer 10 1 =
     Inr (memory_snapshot 100)"
  by (simp_all add: snapshot_def get_max_memory_def mem_mb_of_def dist_reduce_max_def
        keep_local_def dict_update_def eval_defs)

lemma ancestors_example: "ancestors ''work_dirs/run'' = [''work_dirs'']"
  by (simp add: ancestors_def upt_rec)

lemma replicate_2: "replicate 2 x = [x, x]"
  by (simp add: numeral_2_eq_2)

lemma rat_format_int_examples:
  "rat_format ''.3f'' 2 = ''2.000''"
  "rat_format ''.3f'' 1 = ''1.000''"
  by (simp_all add: rat_format_def fmt_fixed_def round_half_even_def zero_pad_def
        str_nat.simps Let_def replicate_2)

lemma duration_180: "duration 180 = ''0:03:00''"
  by (simp add: duration_def Let_def pad2_def str_int_def str_nat.simps)

lemma rat_round_dyadic_examples:
  "rat_round (1 / 2) 5 = 1 / 2" "rat_round (1 / 4) 5 = 1 / 4" "rat_round (1 / 8) 5 = 1 / 8"
  by (simp_all add: rat_round_def round_half_even_def Let_def)

lemmas eval_defs2 = eval_defs int_timing_snapshot_def

lemma strip_slashes_example: "strip_slashes ''work_dirs/run'' = ''work_dirs/run''"
  by (simp add: strip_slashes_def)

lemma metadata_record_example:
  "json_log_of exact_ops [(''seed'', VInt 42), (''scale'', VFloat (123456789 / 1000000000))]
     = [(''seed'', VInt 42), (''scale'', VFloat (6173 / 50000))]"
  by (simp add: json_log_of_def exact_ops_simps rat_round_example)

lemmas before_run_defs = before_run_def Let_def init_def example_trainer_def empty_world_def
  used_world_def osp_exists_def makedirs_def strip_slashes_def ancestors_example is_master_def
  logger_info_def dump_log_def append_line_def read_lines_def osp_join_def
  metadata_record_example

subsection \<open>The peak-memory query\<close>

text \<open>
  Claim C1 as stated: in a run of more than one process, the memory value of every
  process is the maximum of the local readings of all processes. The reduction has the
  destination rank 0, and only that rank receives the maximum. In a run of two processes
  with readings of 200 and 100 megabytes, on a backend that leaves the tensors of the
  other ranks as they are, rank 0 returns 200 and rank 1 returns its own 100.
\<close>

theorem get_max_memory_nonroot_counterexample:
  "get_max_memory keep_local [209715200, 104857600] 0 = Inr 200 \<and>
   get_max_memory keep_local [209715200, 104857600] 1 = Inr 100"
  by (simp add: get_max_memory_def mem_mb_of_def dist_reduce_max_def keep_local_def)

text \<open>
  Claim C1, amended: in a run of more than one process whose local readings all fit a
  32-bit number of megabytes, the value returned by the peak-memory query at rank 0 is the
  maximum of the local readings in megabytes; at every other rank it is what the
  reduction left in the tensor of that rank, which need not be the maximum.
\<close>

theorem get_max_memory_reduces_to_rank0:
  assumes "1 < length mems" and "\<forall>m\<in>set mems. m div (1024 * 1024) < 2 ^ 31"
      and "rank < length mems"
  shows "get_max_memory nondst mems rank =
           Inr (if rank = 0 then Max (set (map (\<lambda>m. int (m div (1024 * 1024))) mems))
                else nondst rank (map (\<lambda>m. int (m div (1024 * 1024))) mems))"
proof -
  have "mems ! rank \<in> set mems" using assms(3) by simp
  with assms(2) have "mems ! rank div (1024 * 1024) < 2 ^ 31" by blast
  then have own: "mem_mb_of (mems ! rank) = Inr (int (mems ! rank div (1024 * 1024)))"
    by (simp add: mem_mb_of_def)
  show ?thesis
    using assms(1)
    by (simp add: get_max_memory_def own all_ok_mem_mb [OF assms(2)] dist_reduce_max_def)
qed

theorem get_max_memory_reduces_to_rank0_witness:
  "1 < length [209715200, 104857600 :: nat] \<and>
   get_max_memory keep_local [209715200, 104857600] 0 = Inr 200 \<and>
   get_max_memory keep_local [209715200, 104857600] 1 = Inr (keep_local 1 [200, 100])"
proof -
  have h1: "1 < length [209715200, 104857600 :: nat]" by simp
  have h2: "\<forall>m\<in>set [209715200, 104857600 :: nat]. m div (1024 * 1024) < 2 ^ 31" by simp
  have c0: "get_max_memory keep_local [209715200, 104857600] 0 = Inr 200"
    using get_max_memory_reduces_to_rank0 [OF h1 h2, of 0 keep_local] by simp
  have c1: "get_max_memory keep_local [209715200, 104857600] 1 = Inr (keep_local 1 [200, 100])"
    using get_max_memory_reduces_to_rank0 [OF h1 h2, of 1 keep_local] by simp
  show ?thesis by (intro conjI h1 c0 c1)
qed

subsection \<open>The logged keys across ticks\<close>

text \<open>
  Claim C2 as stated: the keys marked as logged are reset at each call, so that a key
  marked in one tick is not suppressed in a later tick. The list is empty at
  construction only. Rendered by a fresh hook, the validation snapshot shows its \<^verbatim>\<open>lr\<close>
  entry; rendered after a training tick, which marked \<^verbatim>\<open>lr\<close>, the same snapshot shows it
  no more.
\<close>

theorem logged_keys_leak_counterexample:
  "logged_keys (init True 10 None :: rat hook) = [] \<and>
   map_sum id snd (ticks exact_ops LogKeys example_trainer example_hook [eval_snapshot]) =
     Inr [''epoch(eval) [1][5]'' @ [CHR 0x09] @ ''lr: 0.5000, accuracy: 0.7500''] \<and>
   map_sum id snd
     (ticks exact_ops LogKeys example_trainer example_hook [train_snapshot, eval_snapshot]) =
     Inr [''epoch [1][10/50]'' @ [CHR 0x09]
          @ ''lr: 5.000e-01, eta: 0:00:45, iter_time: 0.500, data_load_time: 0.250, loss: 0.1250'',
          ''epoch(eval) [1][5]'' @ [CHR 0x09] @ ''accuracy: 0.7500'']"
  by (simp add: init_def render_train_example render_eval_fresh_example
        render_eval_later_example)

text \<open>
  Claim C2, amended: the list of logged keys is created empty when the hook is
  constructed and is never reset. Every tick appends the keys it consumes, so at the
  start of a tick the list holds all keys marked by the earlier ticks, and the trailing
  segment of that tick omits every one of them.
\<close>

theorem logged_keys_never_reset:
  assumes "ticks ops keys trainer self earlier = Inr (self1, lines)"
      and "render ops keys trainer self1 log_dict = Inr (self2, line)"
  shows "(\<exists>marked1 marked2.
            logged_keys self1 = logged_keys self @ marked1 \<and>
            logged_keys self2 = logged_keys self1 @ marked2) \<and>
         (\<exists>head. line = head @ join '', '' (map (log_item ops) (remaining self2 log_dict))) \<and>
         set (logged_keys self1) \<inter> fst ` set (remaining self2 log_dict) = {}"
proof -
  from ticks_logged_keys [OF assms(1)] obtain m1 where
    m1: "logged_keys self1 = logged_keys self @ m1" by blast
  from render_marks [OF assms(2)] obtain head c where
    h: "line = head @ join '', '' (log_items ops self2 log_dict)"
    and c: "logged_keys self2 = logged_keys self1 @ c" by blast
  have "set (logged_keys self2) \<inter> fst ` set (remaining self2 log_dict) = {}"
    by (rule remaining_excludes)
  with c have "set (logged_keys self1) \<inter> fst ` set (remaining self2 log_dict) = {}"
    by auto
  with m1 c h show ?thesis by (auto simp: log_items_def)
qed

theorem logged_keys_never_reset_witness:
  "ticks exact_ops LogKeys example_trainer example_hook [train_snapshot] =
     Inr (trained_hook,
          [''epoch [1][10/50]'' @ [CHR 0x09]
           @ ''lr: 5.000e-01, eta: 0:00:45, iter_time: 0.500, data_load_time: 0.250, loss: 0.1250'']) \<and>
   render exact_ops LogKeys example_trainer trained_hook eval_snapshot =
     Inr (trained_hook\<lparr>logged_keys := logged_keys trained_hook @ [''mode'', ''iter'', ''epoch'']\<rparr>,
          ''epoch(eval) [1][5]'' @ [CHR 0x09] @ ''accuracy: 0.7500'') \<and>
   set (logged_keys trained_hook) \<inter>
     fst ` set (remaining
       (trained_hook\<lparr>logged_keys := logged_keys trained_hook @ [''mode'', ''iter'', ''epoch'']\<rparr>)
       eval_snapshot) = {}"
proof -
  have h1: "ticks exact_ops LogKeys example_trainer example_hook [train_snapshot] =
     Inr (trained_hook,
          [''epoch [1][10/50]'' @ [CHR 0x09]
           @ ''lr: 5.000e-01, eta: 0:00:45, iter_time: 0.500, data_load_time: 0.250, loss: 0.1250''])"
    by (simp add: render_train_example)
  note h2 = render_eval_later_example
  have c: "set (logged_keys trained_hook) \<inter>
     fst ` set (remaining
       (trained_hook\<lparr>logged_keys := logged_keys trained_hook @ [''mode'', ''iter'', ''epoch'']\<rparr>)
       eval_snapshot) = {}"
    using logged_keys_never_reset [OF h1 h2] by blast
  show ?thesis by (intro conjI h1 h2 c)
qed

subsection \<open>The ETA\<close>

text \<open>
  Claim C3 as stated: every training tick whose snapshot holds a per-iteration time
  renders the ETA, the iteration time and the data-load time. The data-load time is read
  without a check: for a training snapshot with the iteration time and without the
  data-load time the block raises the missing-key error, and nothing is rendered.
\<close>

theorem timing_without_data_load_time_counterexample:
  "dict_get iter_time_only_snapshot (MODE LogKeys) = Inr (VStr (TRAIN LogKeys)) \<and>
   ITER_TIME LogKeys \<in> set (dict_keys iter_time_only_snapshot) \<and>
   timing exact_ops LogKeys example_trainer example_hook iter_time_only_snapshot =
     Inl (KeyError ''data_load_time'')"
  by (simp add: render_defs eval_defs)

text \<open>
  Claim C3, amended: in a tick whose snapshot holds a per-iteration time \<open>t\<close> and a
  data-load time \<open>d\<close>, both numbers, and whose ETA can be computed (the iteration count
  \<open>iter - start_iter + 1\<close> is not zero, the integers involved convert to floats, the
  seconds fit a duration), the hook adds \<open>t * interval\<close> to \<^verbatim>\<open>time_sec_tot\<close>, in integers
  when the total and \<open>t\<close> are integers and in floats otherwise, divides the new total by
  \<open>iter - start_iter + 1\<close>, multiplies the average by \<open>max_iters - iter - 1\<close>, and renders
  the integer part \<open>secs\<close> of the product as a duration, \<^verbatim>\<open>H:MM:SS\<close> with a day count when
  the duration is not within one day, followed by \<open>t\<close> and \<open>d\<close> with 3 decimals. Both
  timing keys are marked as logged.
\<close>

theorem timing_eta:
  assumes "dict_get log_dict (ITER_TIME keys) = Inr t"
      and "num_of_value t = Some tn"
      and "float_of_num ops tn = Some tf"
      and "dict_get log_dict (DATA_LOAD_TIME keys) = Inr d"
      and "num_of_value d = Some dn"
      and "float_of_num ops dn = Some df"
      and "float_of_int ops (interval self) = Some iv"
      and "float_of_num ops (time_sec_tot self) = Some T"
      and "float_of_num ops
             (case tn of NInt i \<Rightarrow> NInt (i * interval self)
                       | NFloat x \<Rightarrow> NFloat (fmul ops x iv)) = Some pf"
      and "tot = (case (time_sec_tot self, tn) of
                    (NInt a, NInt i) \<Rightarrow> NInt (a + i * interval self)
                  | _ \<Rightarrow> NFloat (fadd ops T pf))"
      and "start_iter self = Some start"
      and "iter trainer - start + 1 \<noteq> 0"
      and "(case tot of
              NInt s \<Rightarrow> int_truediv ops s (iter trainer - start + 1)
            | NFloat S \<Rightarrow> map_option (fdiv ops S) (float_of_int ops (iter trainer - start + 1)))
           = Some avg"
      and "float_of_int ops (max_iters trainer - iter trainer - 1) = Some r"
      and "int_of_float ops (fmul ops avg r) = Inr secs"
      and "\<bar>secs div 86400\<bar> \<le> 999999999"
  shows "timing ops keys trainer self log_dict =
           Inr (self\<lparr>time_sec_tot := tot,
                      logged_keys := logged_keys self @ [ITER_TIME keys, DATA_LOAD_TIME keys]\<rparr>,
                ETA keys @ '': '' @ duration secs @ '', ''
                @ ITER_TIME keys @ '': '' @ fformat ops ''.3f'' tf @ '', ''
                @ DATA_LOAD_TIME keys @ '': '' @ fformat ops ''.3f'' df @ '', '')"
proof -
  have k: "ITER_TIME keys \<in> set (dict_keys log_dict)"
    using assms(1) by (rule dict_get_Inr_key)
  have a: "bind (py_mul_int ops t (interval self)) (py_add ops (time_sec_tot self)) = Inr tot"
    using num_of_value_cases [OF assms(2)] assms(7,8,9,10)
    by (cases "time_sec_tot self")
       (auto simp: py_mul_int_def py_add_def float_of_num_def)
  have q: "py_truediv_int ops tot (iter trainer - start + 1) = Inr avg"
    using assms(12,13)
    by (cases tot) (auto simp: py_truediv_int_def split: option.splits)
  have e: "fmul_int ops avg (max_iters trainer - iter trainer - 1) = Inr (fmul ops avg r)"
    using assms(14) by (simp add: fmul_int_def)
  have b: "eta_block ops trainer self t = Inr (tot, duration secs)"
    using a
    by (auto simp: eta_block_def bind_eq_Inr q e assms(11,15) duration_timedelta [OF assms(16)])
  have ft: "py_format ops ''.3f'' t = Inr (fformat ops ''.3f'' tf)"
    using assms(2,3) by (rule py_format_num)
  have fd: "py_format ops ''.3f'' d = Inr (fformat ops ''.3f'' df)"
    using assms(5,6) by (rule py_format_num)
  show ?thesis
    by (simp add: timing_def k assms(1,4) b ft fd)
qed

theorem timing_eta_witness:
  "dict_get train_snapshot (ITER_TIME LogKeys) = Inr (VFloat (1 / 2)) \<and>
   dict_get train_snapshot (DATA_LOAD_TIME LogKeys) = Inr (VFloat (1 / 4)) \<and>
   timing exact_ops LogKeys example_trainer example_hook train_snapshot =
     Inr (example_hook\<lparr>time_sec_tot := NFloat 5,
                       logged_keys := [''iter_time'', ''data_load_time'']\<rparr>,
          ''eta: 0:00:45, iter_time: 0.500, data_load_time: 0.250, '') \<and>
   dict_get int_timing_snapshot (ITER_TIME LogKeys) = Inr (VInt 2) \<and>
   dict_get int_timing_snapshot (DATA_LOAD_TIME LogKeys) = Inr (VInt 1) \<and>
   timing exact_ops LogKeys example_trainer example_hook int_timing_snapshot =
     Inr (example_hook\<lparr>time_sec_tot := NInt 20,
                       logged_keys := [''iter_time'', ''data_load_time'']\<rparr>,
          ''eta: 0:03:00, iter_time: 2.000, data_load_time: 1.000, '')"
proof -
  have h1: "dict_get train_snapshot (ITER_TIME LogKeys) = Inr (VFloat (1 / 2))"
    by (simp add: eval_defs)
  have h2: "dict_get train_snapshot (DATA_LOAD_TIME LogKeys) = Inr (VFloat (1 / 4))"
    by (simp add: eval_defs)
  have c: "timing exact_ops LogKeys example_trainer example_hook train_snapshot =
     Inr (example_hook\<lparr>time_sec_tot := NFloat 5,
                       logged_keys := [''iter_time'', ''data_load_time'']\<rparr>,
          ''eta: 0:00:45, iter_time: 0.500, data_load_time: 0.250, '')"
  proof -
    have "timing exact_ops LogKeys example_trainer example_hook train_snapshot =
           Inr (example_hook\<lparr>time_sec_tot := NFloat 5,
                      logged_keys := logged_keys example_hook
                        @ [ITER_TIME LogKeys, DATA_LOAD_TIME LogKeys]\<rparr>,
                ETA LogKeys @ '': '' @ duration 45 @ '', ''
                @ ITER_TIME LogKeys @ '': '' @ fformat exact_ops ''.3f'' (1 / 2) @ '', ''
                @ DATA_LOAD_TIME LogKeys @ '': '' @ fformat exact_ops ''.3f'' (1 / 4) @ '', '')"
      by (rule timing_eta [where t = "VFloat (1 / 2)" and tn = "NFloat (1 / 2)"
              and d = "VFloat (1 / 4)" and dn = "NFloat (1 / 4)" and iv = 10 and T = 0
              and pf = 5 and start = 0 and avg = "1 / 2" and r = 90])
         (simp_all add: eval_defs num_of_value_def float_of_num_def exact_float_of_int
            exact_ops_simps rat_trunc_def)
    then show ?thesis
      by (simp add: exact_ops_simps rat_format_examples duration_45 LogKeys_def example_hook_def)
  qed
  have g1: "dict_get int_timing_snapshot (ITER_TIME LogKeys) = Inr (VInt 2)"
    by (simp add: eval_defs2)
  have g2: "dict_get int_timing_snapshot (DATA_LOAD_TIME LogKeys) = Inr (VInt 1)"
    by (simp add: eval_defs2)
  have ci: "timing exact_ops LogKeys example_trainer example_hook int_timing_snapshot =
     Inr (example_hook\<lparr>time_sec_tot := NInt 20,
                       logged_keys := [''iter_time'', ''data_load_time'']\<rparr>,
          ''eta: 0:03:00, iter_time: 2.000, data_load_time: 1.000, '')"
  proof -
    have "timing exact_ops LogKeys example_trainer example_hook int_timing_snapshot =
           Inr (example_hook\<lparr>time_sec_tot := NInt 20,
                      logged_keys := logged_keys example_hook
                        @ [ITER_TIME LogKeys, DATA_LOAD_TIME LogKeys]\<rparr>,
                ETA LogKeys @ '': '' @ duration 180 @ '', ''
                @ ITER_TIME LogKeys @ '': '' @ fformat exact_ops ''.3f'' 2 @ '', ''
                @ DATA_LOAD_TIME LogKeys @ '': '' @ fformat exact_ops ''.3f'' 1 @ '', '')"
      by (rule timing_eta [where t = "VInt 2" and tn = "NInt 2"
              and d = "VInt 1" and dn = "NInt 1" and iv = 10 and T = 0
              and pf = 20 and start = 0 and avg = 2 and r = 90])
         (simp_all add: eval_defs2 num_of_value_def float_of_num_def exact_float_of_int
            exact_ops_simps rat_trunc_def)
    then show ?thesis
      by (simp add: exact_ops_simps rat_format_int_examples duration_180 LogKeys_def
            example_hook_def)
  qed
  show ?thesis by (intro conjI h1 h2 c g1 g2 ci)
qed

subsection \<open>The JSON record\<close>

text \<open>
  Claim C4: for a snapshot, the single writer appends one record to the log file; read
  back, the record has the keys of the snapshot in the same order, and each value is the
  rounded copy of the original: a float rounded to 5 decimals, a list copied element by
  element in the same way, any other value unchanged.
\<close>

theorem dump_log_rounded_copy:
  assumes "distinct (map fst log_dict)" and "json_log_path self = Some path"
  shows "\<exists>json_log w'.
           dump_log ops 0 self log_dict w = Inr w' \<and>
           read_lines path w' = read_lines path w @ [json_log] \<and>
           map fst json_log = map fst log_dict \<and>
           list_all2 (\<lambda>kv kv'. fst kv' = fst kv \<and> rounded_copy ops (snd kv) (snd kv'))
             log_dict json_log"
proof -
  have m: "json_log_of ops log_dict = map (\<lambda>(k, v). (k, round_float ops v 5)) log_dict"
    using assms(1) by (rule json_log_of_map)
  have k: "map fst (json_log_of ops log_dict) = map fst log_dict"
    by (simp add: m case_prod_beta comp_def)
  have r: "list_all2 (\<lambda>kv kv'. fst kv' = fst kv \<and> rounded_copy ops (snd kv) (snd kv'))
             log_dict (json_log_of ops log_dict)"
    by (simp add: m list_all2_map2 list_all2_same case_prod_beta round_float_rounded_copy)
  have d: "dump_log ops 0 self log_dict w =
             Inr (append_line path (json_log_of ops log_dict) w)"
    by (simp add: dump_log_def is_master_def assms(2) Let_def)
  from d k r read_lines_append [of path "json_log_of ops log_dict" w] show ?thesis by blast
qed

theorem dump_log_rounded_copy_witness:
  "distinct (map fst nested_snapshot) \<and>
   json_log_path example_hook = Some ''work_dirs/run/20240101_120000.log.json'' \<and>
   (\<exists>json_log w'.
      dump_log exact_ops 0 example_hook nested_snapshot empty_world = Inr w' \<and>
      read_lines ''work_dirs/run/20240101_120000.log.json'' w' =
        read_lines ''work_dirs/run/20240101_120000.log.json'' empty_world @ [json_log] \<and>
      map fst json_log = map fst nested_snapshot \<and>
      list_all2 (\<lambda>kv kv'. fst kv' = fst kv \<and> rounded_copy exact_ops (snd kv) (snd kv'))
        nested_snapshot json_log)"
proof -
  have h1: "distinct (map fst nested_snapshot)"
    by (simp add: nested_snapshot_def)
  have h2: "json_log_path example_hook = Some ''work_dirs/run/20240101_120000.log.json''"
    by (simp add: example_hook_def)
  show ?thesis
    by (intro conjI h1 h2 dump_log_rounded_copy [OF h1 h2])
qed

subsection \<open>The single writer\<close>

text \<open>
  Claim C5: in a tick that renders its snapshot, every process returns the same
  snapshot and the same hook. At rank 0 the rendered line becomes the last entry of the
  logging sink, and the record of the snapshot, each value rounded, becomes the last
  line of the log file; the directories stay as they were. A process of any other rank
  leaves the sink, the files and the directories unchanged.
\<close>

theorem log_single_writer:
  assumes "snapshot keys nondst cuda rank trainer cur_iter epoch = Inr log_dict"
      and "render ops keys trainer self log_dict = Inr (self', line)"
      and "json_log_path self = Some path"
  shows "\<exists>w'. log ops keys nondst cuda rank trainer cur_iter epoch self w =
                Inr (log_dict, self', w') \<and>
              sink w' = (if rank = 0 then sink w @ [line] else sink w) \<and>
              files w' =
                (if rank = 0
                 then (files w)(path \<mapsto> read_lines path w
                         @ [map (\<lambda>kv. (fst kv, round_float ops (snd kv) 5)) log_dict])
                 else files w) \<and>
              dirs w' = dirs w \<and>
              (rank \<noteq> 0 \<longrightarrow> w' = w)"
proof -
  have p: "json_log_path self' = Some path"
    using render_json_log_path [OF assms(2)] assms(3) by simp
  have j: "json_log_of ops log_dict = map (\<lambda>kv. (fst kv, round_float ops (snd kv) 5)) log_dict"
    using json_log_of_map [OF snapshot_distinct [OF assms(1)], of ops]
    by (simp add: case_prod_beta)
  show ?thesis
    by (simp add: log_def assms(1,2) log_info_def dump_log_def is_master_def p j Let_def
          logger_info_def append_line_def read_lines_def)
qed

theorem log_single_writer_witness:
  "snapshot LogKeys keep_local (Some [209715200, 104857600]) 1 example_trainer 10 1 =
     Inr (memory_snapshot 100) \<and>
   json_log_path example_hook = Some ''work_dirs/run/20240101_120000.log.json'' \<and>
   log exact_ops LogKeys keep_local (Some [209715200, 104857600]) 1 example_trainer 10 1
       example_hook empty_world =
     Inr (memory_snapshot 100, trained_hook, empty_world) \<and>
   (\<exists>w'. log exact_ops LogKeys keep_local (Some [209715200, 104857600]) 0 example_trainer 10 1
            example_hook empty_world =
          Inr (memory_snapshot 200, trained_hook, w') \<and>
          sink w' =
            [''epoch [1][10/50]'' @ [CHR 0x09]
             @ ''lr: 5.000e-01, eta: 0:00:45, iter_time: 0.500, data_load_time: 0.250, memory: 200, loss: 0.1250''] \<and>
          read_lines ''work_dirs/run/20240101_120000.log.json'' w' =
            [[(''mode'', VStr ''train''), (''epoch'', VInt 1), (''iter'', VInt 10),
              (''memory'', VInt 200), (''lr'', VFloat (1 / 2)), (''iter_time'', VFloat (1 / 2)),
              (''data_load_time'', VFloat (1 / 4)), (''loss'', VFloat (1 / 8))]] \<and>
          dirs w' = {})"
proof -
  note s1 = snapshot_example(2)
  note s0 = snapshot_example(1)
  have p: "json_log_path example_hook = Some ''work_dirs/run/20240101_120000.log.json''"
    by (simp add: example_hook_def)
  have c1: "log exact_ops LogKeys keep_local (Some [209715200, 104857600]) 1 example_trainer 10 1
       example_hook empty_world =
     Inr (memory_snapshot 100, trained_hook, empty_world)"
    using log_single_writer [OF s1 render_memory_example p, of empty_world] by auto
  from log_single_writer [OF s0 render_memory_example p, of empty_world]
  obtain w' where
    l: "log exact_ops LogKeys keep_local (Some [209715200, 104857600]) 0 example_trainer 10 1
          example_hook empty_world = Inr (memory_snapshot 200, trained_hook, w')"
    and s: "sink w' = sink empty_world
              @ [''epoch [1][10/50]'' @ [CHR 0x09]
                 @ ''lr: 5.000e-01, eta: 0:00:45, iter_time: 0.500, data_load_time: 0.250, memory: ''
                 @ str_int 200 @ '', loss: 0.1250'']"
    and f: "files w' =
              (files empty_world)(''work_dirs/run/20240101_120000.log.json'' \<mapsto>
                 read_lines ''work_dirs/run/20240101_120000.log.json'' empty_world
                 @ [map (\<lambda>kv. (fst kv, round_float exact_ops (snd kv) 5)) (memory_snapshot 200)])"
    and d: "dirs w' = dirs empty_world"
    by auto
  have s': "sink w' =
            [''epoch [1][10/50]'' @ [CHR 0x09]
             @ ''lr: 5.000e-01, eta: 0:00:45, iter_time: 0.500, data_load_time: 0.250, memory: 200, loss: 0.1250'']"
    using s by (simp add: empty_world_def str_int_examples)
  have f': "read_lines ''work_dirs/run/20240101_120000.log.json'' w' =
            [[(''mode'', VStr ''train''), (''epoch'', VInt 1), (''iter'', VInt 10),
              (''memory'', VInt 200), (''lr'', VFloat (1 / 2)), (''iter_time'', VFloat (1 / 2)),
              (''data_load_time'', VFloat (1 / 4)), (''loss'', VFloat (1 / 8))]]"
    using f by (simp add: read_lines_def empty_world_def memory_snapshot_def exact_ops_simps
                  rat_round_dyadic_examples)
  have d': "dirs w' = {}"
    using d by (simp add: empty_world_def)
  from l s' f' d' have c0: "\<exists>w'. log exact_ops LogKeys keep_local (Some [209715200, 104857600]) 0 example_trainer 10 1
            example_hook empty_world =
          Inr (memory_snapshot 200, trained_hook, w') \<and>
          sink w' =
            [''epoch [1][10/50]'' @ [CHR 0x09]
             @ ''lr: 5.000e-01, eta: 0:00:45, iter_time: 0.500, data_load_time: 0.250, memory: 200, loss: 0.1250''] \<and>
          read_lines ''work_dirs/run/20240101_120000.log.json'' w' =
            [[(''mode'', VStr ''train''), (''epoch'', VInt 1), (''iter'', VInt 10),
              (''memory'', VInt 200), (''lr'', VFloat (1 / 2)), (''iter_time'', VFloat (1 / 2)),
              (''data_load_time'', VFloat (1 / 4)), (''loss'', VFloat (1 / 8))]] \<and>
          dirs w' = {}"
    by blast
  show ?thesis by (intro conjI s1 p c1 c0)
qed

subsection \<open>Initialisation\<close>

text \<open>
  Claim C6 as stated: for every run context, \<^verbatim>\<open>before_run\<close> sets up the output directory
  and the log path and, when the run has metadata, writes them as the first JSON record.
  At rank 1 the metadata are not written at all; at rank 0 with the empty output
  directory \<^verbatim>\<open>os.makedirs\<close> raises; and when the log file already holds a line, the record
  of the metadata, rounded, comes after it.
\<close>

theorem before_run_metadata_counterexample:
  "before_run exact_ops 1 example_trainer (init True 10 None) empty_world =
     Inr ((init True 10 None)
            \<lparr>out_dir := Some ''work_dirs/run'', start_iter := Some 9,
              json_log_path := Some ''work_dirs/run/20240101_120000.log.json''\<rparr>,
          empty_world\<lparr>sink := [''Text logs will be saved to work_dirs/run'']\<rparr>) \<and>
   before_run exact_ops 0 example_trainer (init True 10 (Some [])) empty_world =
     Inl FileNotFoundError \<and>
   map_sum id (\<lambda>sw. read_lines ''work_dirs/run/20240101_120000.log.json'' (snd sw))
     (before_run exact_ops 0 example_trainer (init True 10 None) used_world) =
     Inr [[(''seed'', VInt 7)], [(''seed'', VInt 42), (''scale'', VFloat (6173 / 50000))]]"
  by (simp add: before_run_defs)

text \<open>
  Claim C6, amended: when the directory can be created where the single writer has to
  create it, and the log file can be opened (the output directory is not a regular
  file, the log path is not a directory, the timestamp has no slash), \<^verbatim>\<open>before_run\<close>
  returns. The output directory is the configured one when given and the working
  directory of the run otherwise; it is created, with its ancestors, only when it does
  not exist and the caller has rank 0; one line is given to the logging sink; the
  starting iteration is the iteration of the trainer; the path of the log file is the
  output directory joined with the timestamp and \<^verbatim>\<open>.log.json\<close>, which for a directory name
  without a trailing slash is \<^verbatim>\<open><out_dir>/<timestamp>.log.json\<close>. When the trainer has
  metadata, the process of rank 0 appends their rounded record to the log file, as the
  first record when the file did not exist, and a process of any other rank writes
  nothing.
\<close>

theorem before_run_initialises:
  assumes "dir = (case out_dir self of None \<Rightarrow> work_dir trainer | Some d \<Rightarrow> d)"
      and "path = osp_join dir (timestamp trainer @ ''.log.json'')"
      and "osp_exists dir w \<or> rank \<noteq> 0 \<or>
           (dir \<noteq> [] \<and>
            list_all (\<lambda>a. files w a = None) (strip_slashes dir # ancestors (strip_slashes dir)))"
      and "files w dir = None"
      and "path \<notin> dirs w"
      and "CHR ''/'' \<notin> set (timestamp trainer)"
  shows "\<exists>self' w'.
           before_run ops rank trainer self w = Inr (self', w') \<and>
           out_dir self' = Some dir \<and>
           start_iter self' = Some (iter trainer) \<and>
           json_log_path self' = Some path \<and>
           sink w' = sink w @ [''Text logs will be saved to '' @ dir] \<and>
           dirs w' = (if \<not> osp_exists dir w \<and> rank = 0
                      then dirs w \<union> set (ancestors (strip_slashes dir)) \<union> {strip_slashes dir}
                      else dirs w) \<and>
           files w' = (case meta trainer of
                         None \<Rightarrow> files w
                       | Some m \<Rightarrow>
                           if rank = 0
                           then (files w)(path \<mapsto> read_lines path w @ [json_log_of ops m])
                           else files w) \<and>
           (rank = 0 \<and> files w path = None \<longrightarrow>
              (\<forall>m. meta trainer = Some m \<longrightarrow> read_lines path w' = [json_log_of ops m])) \<and>
           (dir \<noteq> [] \<and> last dir \<noteq> CHR ''/'' \<longrightarrow>
              path = dir @ ''/'' @ timestamp trainer @ ''.log.json'')"
proof -
  have j: "dir \<noteq> [] \<and> last dir \<noteq> CHR ''/'' \<longrightarrow>
             path = dir @ ''/'' @ timestamp trainer @ ''.log.json''"
    using assms(6) by (cases "timestamp trainer") (auto simp: assms(2) osp_join_def)
  define w1 where
    "w1 = (if \<not> osp_exists dir w \<and> rank = 0
           then w\<lparr>dirs := dirs w \<union> set (ancestors (strip_slashes dir)) \<union> {strip_slashes dir}\<rparr>
           else w)"
  define self' where
    "self' = self\<lparr>out_dir := Some dir, start_iter := Some (iter trainer),
                   json_log_path := Some path\<rparr>"
  define w2 where "w2 = logger_info (''Text logs will be saved to '' @ dir) w1"
  have m: "(if \<not> osp_exists dir w \<and> is_master rank then makedirs dir w else Inr w) = Inr w1"
    using assms(3) by (auto simp: w1_def is_master_def makedirs_fresh)
  have br: "before_run ops rank trainer self w =
              (case meta trainer of
                 None \<Rightarrow> Inr (self', w2)
               | Some m \<Rightarrow> bind (dump_log ops rank self' m w2) (\<lambda>w3. Inr (self', w3)))"
    unfolding before_run_def Let_def assms(1,2) [symmetric] m self'_def w2_def
    by simp
  have f2: "files w2 = files w" and s2: "sink w2 = sink w @ [''Text logs will be saved to '' @ dir]"
    and d2: "dirs w2 = (if \<not> osp_exists dir w \<and> rank = 0
                      then dirs w \<union> set (ancestors (strip_slashes dir)) \<union> {strip_slashes dir}
                      else dirs w)"
    by (simp_all add: w2_def w1_def logger_info_def)
  have sf: "out_dir self' = Some dir" "start_iter self' = Some (iter trainer)"
    "json_log_path self' = Some path"
    by (simp_all add: self'_def)
  show ?thesis
  proof (cases "meta trainer")
    case None
    show ?thesis
      apply (rule exI [of _ self'])
      apply (rule exI [of _ w2])
      using j by (simp add: br None f2 s2 d2 sf)
  next
    case (Some md)
    define w3 where
      "w3 = (if rank = 0 then append_line path (json_log_of ops md) w2 else w2)"
    have dl: "dump_log ops rank self' md w2 = Inr w3"
      by (simp add: dump_log_def Let_def is_master_def sf w3_def)
    have f3: "files w3 = (if rank = 0
                          then (files w)(path \<mapsto> read_lines path w @ [json_log_of ops md])
                          else files w)"
      and s3: "sink w3 = sink w2" and d3: "dirs w3 = dirs w2"
      by (simp_all add: w3_def append_line_def read_lines_def f2)
    have r3: "rank = 0 \<and> files w path = None \<longrightarrow> read_lines path w3 = [json_log_of ops md]"
      by (simp add: read_lines_def f3)
    show ?thesis
      apply (rule exI [of _ self'])
      apply (rule exI [of _ w3])
      using j r3 by (simp add: br Some dl f3 s3 d3 s2 d2 sf)
  qed
qed

theorem before_run_initialises_witness:
  "\<exists>self' w'.
     before_run exact_ops 0 example_trainer (init True 10 None) empty_world = Inr (self', w') \<and>
     out_dir self' = Some ''work_dirs/run'' \<and>
     start_iter self' = Some 9 \<and>
     json_log_path self' = Some ''work_dirs/run/20240101_120000.log.json'' \<and>
     sink w' = [''Text logs will be saved to work_dirs/run''] \<and>
     dirs w' = {''work_dirs'', ''work_dirs/run''} \<and>
     read_lines ''work_dirs/run/20240101_120000.log.json'' w' =
       [[(''seed'', VInt 42), (''scale'', VFloat (6173 / 50000))]]"
proof -
  have h1: "''work_dirs/run'' =
      (case out_dir (init True 10 None :: rat hook) of
         None \<Rightarrow> work_dir example_trainer | Some d \<Rightarrow> d)"
    by (simp add: init_def example_trainer_def)
  have h2: "''work_dirs/run/20240101_120000.log.json'' =
      osp_join ''work_dirs/run'' (timestamp example_trainer @ ''.log.json'')"
    by (simp add: osp_join_def example_trainer_def)
  have h3: "osp_exists ''work_dirs/run'' empty_world \<or> (0::nat) \<noteq> 0 \<or>
           (''work_dirs/run'' \<noteq> [] \<and>
            list_all (\<lambda>a. files empty_world a = None)
              (strip_slashes ''work_dirs/run'' # ancestors (strip_slashes ''work_dirs/run'')))"
    by (simp add: empty_world_def strip_slashes_example ancestors_example)
  have h4: "files empty_world ''work_dirs/run'' = None"
    by (simp add: empty_world_def)
  have h5: "''work_dirs/run/20240101_120000.log.json'' \<notin> dirs empty_world"
    by (simp add: empty_world_def)
  have h6: "CHR ''/'' \<notin> set (timestamp example_trainer)"
    by (simp add: example_trainer_def)
  from before_run_initialises [OF h1 h2 h3 h4 h5 h6, of exact_ops]
  obtain self' w' where
    r: "before_run exact_ops 0 example_trainer (init True 10 None) empty_world = Inr (self', w')"
    and o: "out_dir self' = Some ''work_dirs/run''"
    and s: "start_iter self' = Some (iter example_trainer)"
    and p: "json_log_path self' = Some ''work_dirs/run/20240101_120000.log.json''"
    and k: "sink w' = sink empty_world @ [''Text logs will be saved to '' @ ''work_dirs/run'']"
    and d: "dirs w' = (if \<not> osp_exists ''work_dirs/run'' empty_world \<and> (0::nat) = 0
                      then dirs empty_world \<union> set (ancestors (strip_slashes ''work_dirs/run''))
                             \<union> {strip_slashes ''work_dirs/run''}
                      else dirs empty_world)"
    and f: "files w' = (case meta example_trainer of
                         None \<Rightarrow> files empty_world
                       | Some m \<Rightarrow>
                           if (0::nat) = 0
                           then (files empty_world)(''work_dirs/run/20240101_120000.log.json'' \<mapsto>
                                  read_lines ''work_dirs/run/20240101_120000.log.json'' empty_world
                                  @ [json_log_of exact_ops m])
                           else files empty_world)"
    by blast
  have s': "start_iter self' = Some 9"
    using s by (simp add: example_trainer_def)
  have k': "sink w' = [''Text logs will be saved to work_dirs/run'']"
    using k by (simp add: empty_world_def)
  have d': "dirs w' = {''work_dirs'', ''work_dirs/run''}"
    using d by (auto simp: osp_exists_def empty_world_def ancestors_example strip_slashes_example)
  have f': "read_lines ''work_dirs/run/20240101_120000.log.json'' w' =
       [[(''seed'', VInt 42), (''scale'', VFloat (6173 / 50000))]]"
    using f by (simp add: read_lines_def example_trainer_def empty_world_def
                  metadata_record_example)
  from r o s' p k' d' f' show ?thesis by blast
qed

subsection \<open>The learning-rate segments\<close>

text \<open>
  Claim C7: in a rendered training line the learning rate comes right after the prefix
  and is followed by a comma. For a mapping from group names to values it is one segment
  \<^verbatim>\<open>lr_<group>: <value>\<close> per group, in the order of the mapping, joined by single spaces;
  for a single float it is the one segment \<^verbatim>\<open>lr: <value>\<close>. The values have the format
  \<^verbatim>\<open>.3e\<close>, and the trailing generic segment has no entry for the learning-rate key.
\<close>

theorem lr_segments_rendered:
  assumes "dict_get log_dict (MODE keys) = Inr (VStr (TRAIN keys))"
      and "render ops keys trainer self log_dict = Inr (self', line)"
  shows "\<exists>lr prefix rest.
           dict_get log_dict (LR keys) = Inr lr \<and>
           train_prefix ops keys trainer self log_dict = Inr prefix \<and>
           (\<exists>tms. rest = tms @ join '', '' (map (log_item ops) (remaining self' log_dict))) \<and>
           LR keys \<notin> fst ` set (remaining self' log_dict) \<and>
           (\<forall>groups. lr = VDict groups \<longrightarrow>
              (\<exists>vals. map (\<lambda>kv. py_format ops ''.3e'' (snd kv)) groups = map Inr vals \<and>
                 line = prefix
                   @ join '' '' (map2 (\<lambda>kv s. LR keys @ ''_'' @ fst kv @ '': '' @ s) groups vals)
                   @ '', '' @ rest)) \<and>
           (\<forall>x. lr = VFloat x \<longrightarrow>
              line = prefix @ LR keys @ '': '' @ fformat ops ''.3e'' x @ '', '' @ rest)"
proof -
  from render_train [OF assms] obtain lr lrs prefix tms where
    lr: "dict_get log_dict (LR keys) = Inr lr"
    and lrs: "lr_str ops keys lr = Inr lrs"
    and p: "train_prefix ops keys trainer self log_dict = Inr prefix"
    and l: "line = prefix @ lrs @ '', '' @ tms @ join '', '' (log_items ops self' log_dict)"
    by blast
  from render_marks [OF assms(2)] assms(1) obtain consumed where
    c: "logged_keys self' = logged_keys self @ consumed" and i: "LR keys \<in> set consumed"
    by blast
  have "set (logged_keys self') \<inter> fst ` set (remaining self' log_dict) = {}"
    by (rule remaining_excludes)
  with c i have n: "LR keys \<notin> fst ` set (remaining self' log_dict)" by auto
  define rest where "rest = tms @ join '', '' (map (log_item ops) (remaining self' log_dict))"
  have g: "\<forall>groups. lr = VDict groups \<longrightarrow>
              (\<exists>vals. map (\<lambda>kv. py_format ops ''.3e'' (snd kv)) groups = map Inr vals \<and>
                 line = prefix
                   @ join '' '' (map2 (\<lambda>kv s. LR keys @ ''_'' @ fst kv @ '': '' @ s) groups vals)
                   @ '', '' @ rest)"
  proof (intro allI impI)
    fix groups assume d: "lr = VDict groups"
    with lrs obtain segs where
      s: "lr_segments ops keys groups = Inr segs" and j: "lrs = join '' '' segs"
      by (auto simp: lr_str_def bind_eq_Inr)
    from lr_segments_Inr [OF s] obtain vals where
      "map (\<lambda>kv. py_format ops ''.3e'' (snd kv)) groups = map Inr vals"
      "segs = map2 (\<lambda>kv s. LR keys @ ''_'' @ fst kv @ '': '' @ s) groups vals"
      by blast
    with l j show "\<exists>vals. map (\<lambda>kv. py_format ops ''.3e'' (snd kv)) groups = map Inr vals \<and>
                 line = prefix
                   @ join '' '' (map2 (\<lambda>kv s. LR keys @ ''_'' @ fst kv @ '': '' @ s) groups vals)
                   @ '', '' @ rest"
      by (auto simp: rest_def log_items_def)
  qed
  have f: "\<forall>x. lr = VFloat x \<longrightarrow>
              line = prefix @ LR keys @ '': '' @ fformat ops ''.3e'' x @ '', '' @ rest"
    using lrs l by (auto simp: lr_str_def py_format_def rest_def log_items_def)
  from lr p n g f show ?thesis
    unfolding rest_def by blast
qed

theorem lr_segments_rendered_witness:
  "dict_get group_snapshot (MODE LogKeys) = Inr (VStr (TRAIN LogKeys)) \<and>
   render exact_ops LogKeys example_trainer example_hook group_snapshot =
     Inr (example_hook\<lparr>logged_keys := [''lr'', ''mode'', ''iter'', ''epoch'']\<rparr>,
          ''epoch [1][10/50]'' @ [CHR 0x09] @ ''lr_g0: 5.000e-01 lr_g1: 2.500e-01, loss: 0.1250'') \<and>
   LR LogKeys \<notin> fst ` set (remaining
      (example_hook\<lparr>logged_keys := [''lr'', ''mode'', ''iter'', ''epoch'']\<rparr>) group_snapshot)"
proof -
  have h1: "dict_get group_snapshot (MODE LogKeys) = Inr (VStr (TRAIN LogKeys))"
    by (simp add: eval_defs)
  note h2 = render_group_example
  have c: "LR LogKeys \<notin> fst ` set (remaining
      (example_hook\<lparr>logged_keys := [''lr'', ''mode'', ''iter'', ''epoch'']\<rparr>) group_snapshot)"
    using lr_segments_rendered [OF h1 h2] by blast
  show ?thesis by (intro conjI h1 h2 c)
qed

subsection \<open>Consumed keys\<close>

text \<open>
  Claim C8: a rendered tick marks the keys it consumes: mode, iteration and epoch
  always, in training mode the learning rate too, and both timing keys when the
  iteration time is in the snapshot. The line ends with the generic segment, which is
  made of the snapshot entries whose keys are not marked: no consumed key appears in it.
\<close>

theorem consumed_keys_not_repeated:
  assumes "render ops keys trainer self log_dict = Inr (self', line)"
  shows "\<exists>head consumed.
           line = head @ join '', '' (map (log_item ops) (remaining self' log_dict)) \<and>
           logged_keys self' = logged_keys self @ consumed \<and>
           set consumed \<inter> fst ` set (remaining self' log_dict) = {} \<and>
           {MODE keys, ITER keys, EPOCH keys} \<subseteq> set consumed \<and>
           (dict_get log_dict (MODE keys) = Inr (VStr (TRAIN keys)) \<longrightarrow>
              LR keys \<in> set consumed \<and>
              (ITER_TIME keys \<in> set (dict_keys log_dict) \<longrightarrow>
                 ITER_TIME keys \<in> set consumed \<and> DATA_LOAD_TIME keys \<in> set consumed))"
proof -
  from render_marks [OF assms] obtain head consumed where
    h: "line = head @ join '', '' (log_items ops self' log_dict)"
    and c: "logged_keys self' = logged_keys self @ consumed"
    and k: "{MODE keys, ITER keys, EPOCH keys} \<subseteq> set consumed"
    and t: "dict_get log_dict (MODE keys) = Inr (VStr (TRAIN keys)) \<longrightarrow>
              LR keys \<in> set consumed \<and>
              (ITER_TIME keys \<in> set (dict_keys log_dict) \<longrightarrow>
                 ITER_TIME keys \<in> set consumed \<and> DATA_LOAD_TIME keys \<in> set consumed)"
    by blast
  have "set (logged_keys self') \<inter> fst ` set (remaining self' log_dict) = {}"
    by (rule remaining_excludes)
  with c have d: "set consumed \<inter> fst ` set (remaining self' log_dict) = {}" by auto
  from h have h': "line = head @ join '', '' (map (log_item ops) (remaining self' log_dict))"
    by (simp add: log_items_def)
  from h' c d k t show ?thesis by blast
qed

theorem consumed_keys_not_repeated_witness:
  "render exact_ops LogKeys example_trainer example_hook train_snapshot =
     Inr (trained_hook,
          ''epoch [1][10/50]'' @ [CHR 0x09]
          @ ''lr: 5.000e-01, eta: 0:00:45, iter_time: 0.500, data_load_time: 0.250, loss: 0.1250'') \<and>
   {''mode'', ''iter'', ''epoch'', ''lr'', ''iter_time'', ''data_load_time''} \<inter>
     fst ` set (remaining trained_hook train_snapshot) = {}"
proof -
  note h = render_train_example
  have m: "dict_get train_snapshot (MODE LogKeys) = Inr (VStr (TRAIN LogKeys))"
    by (simp add: eval_defs)
  have k: "ITER_TIME LogKeys \<in> set (dict_keys train_snapshot)"
    by (simp add: eval_defs)
  from consumed_keys_not_repeated [OF h] m k obtain consumed where
    "set consumed \<inter> fst ` set (remaining trained_hook train_snapshot) = {}"
    "{MODE LogKeys, ITER LogKeys, EPOCH LogKeys} \<subseteq> set consumed"
    "LR LogKeys \<in> set consumed" "ITER_TIME LogKeys \<in> set consumed"
    "DATA_LOAD_TIME LogKeys \<in> set consumed"
    by blast
  then have c: "{''mode'', ''iter'', ''epoch'', ''lr'', ''iter_time'', ''data_load_time''} \<inter>
     fst ` set (remaining trained_hook train_snapshot) = {}"
    by (auto simp: LogKeys_def)
  show ?thesis by (intro conjI h c)
qed

subsection \<open>Nested mappings\<close>

text \<open>
  Claim C9: the rounding returns a mapping as it is, floats inside included; it rounds a
  float, and descends into a list, whose elements are rounded to 5 decimals. A record
  with a mapping value and a float value is written with the mapping unchanged and the
  float rounded.
\<close>

theorem round_float_skips_mappings:
  "round_float ops (VDict d) ndigits = VDict d \<and>
   round_float ops (VFloat x) ndigits = VFloat (fround ops x ndigits) \<and>
   round_float ops (VList items) ndigits = VList (map (\<lambda>item. round_float ops item 5) items) \<and>
   round_float ops (VList [VDict d, VFloat x]) ndigits = VList [VDict d, VFloat (fround ops x 5)] \<and>
   json_log_of ops [(k, VDict d), (k', VFloat x)] =
     (if k' = k then [(k, VFloat (fround ops x 5))]
      else [(k, VDict d), (k', VFloat (fround ops x 5))])"
  by (simp add: json_log_of_def)

theorem round_float_skips_mappings_witness:
  "round_float exact_ops (VDict [(''g0'', VFloat (123456789 / 1000000000))]) 5 =
     VDict [(''g0'', VFloat (123456789 / 1000000000))] \<and>
   round_float exact_ops (VFloat (123456789 / 1000000000)) 5 = VFloat (6173 / 50000) \<and>
   json_log_of exact_ops
     [(''lr'', VDict [(''g0'', VFloat (123456789 / 1000000000))]),
      (''loss'', VFloat (123456789 / 1000000000))] =
     [(''lr'', VDict [(''g0'', VFloat (123456789 / 1000000000))]),
      (''loss'', VFloat (6173 / 50000))]"
proof -
  note c = round_float_skips_mappings [of exact_ops "[(''g0'', VFloat (123456789 / 1000000000))]"
      5 "123456789 / 1000000000" "[]" "''lr''" "''loss''"]
  have a: "round_float exact_ops (VDict [(''g0'', VFloat (123456789 / 1000000000))]) 5 =
     VDict [(''g0'', VFloat (123456789 / 1000000000))]"
    using c by blast
  have b: "round_float exact_ops (VFloat (123456789 / 1000000000)) 5 = VFloat (6173 / 50000)"
    using c by (simp only: exact_ops_simps rat_round_example)
  have d: "json_log_of exact_ops
     [(''lr'', VDict [(''g0'', VFloat (123456789 / 1000000000))]),
      (''loss'', VFloat (123456789 / 1000000000))] =
     [(''lr'', VDict [(''g0'', VFloat (123456789 / 1000000000))]),
      (''loss'', VFloat (6173 / 50000))]"
    using conjunct2 [OF conjunct2 [OF conjunct2 [OF conjunct2 [OF c]]]]
    by (simp add: exact_ops_simps rat_round_example)
  show ?thesis by (intro conjI a b d)
qed

subsection \<open>The two timing keys\<close>

text \<open>
  Claim C10 as stated: rendering succeeds only when the two timing keys are both present
  or both absent. A training snapshot with the data-load time and without the iteration
  time renders: the timing block is skipped, and the data-load time appears in the
  generic segment.
\<close>

theorem data_load_time_alone_counterexample:
  "ITER_TIME LogKeys \<notin> set (dict_keys data_load_only_snapshot) \<and>
   DATA_LOAD_TIME LogKeys \<in> set (dict_keys data_load_only_snapshot) \<and>
   render exact_ops LogKeys example_trainer example_hook data_load_only_snapshot =
     Inr (example_hook\<lparr>logged_keys := [''lr'', ''mode'', ''iter'', ''epoch'']\<rparr>,
          ''epoch [1][10/50]'' @ [CHR 0x09]
          @ ''lr: 5.000e-01, data_load_time: 0.2500, loss: 0.1250'')"
  by (simp add: render_defs eval_defs)

text \<open>
  Claim C10, amended: for a training snapshot whose learning rate and prefix render,
  rendering fails with a missing-key error for the data-load time when the iteration
  time is present, its ETA is computed, and the data-load time is absent; when the
  iteration time is absent the timing block is skipped and rendering succeeds, whether
  the data-load time is present or not.
\<close>

theorem data_load_time_read_unconditionally:
  assumes "dict_get log_dict (MODE keys) = Inr (VStr (TRAIN keys))"
      and "dict_get log_dict (LR keys) = Inr lr"
      and "lr_str ops keys lr = Inr lrs"
      and "train_prefix ops keys trainer self log_dict = Inr prefix"
      and "self1 = self\<lparr>logged_keys := logged_keys self @ [LR keys, MODE keys, ITER keys, EPOCH keys]\<rparr>"
  shows "(ITER_TIME keys \<notin> set (dict_keys log_dict) \<longrightarrow>
            render ops keys trainer self log_dict =
              Inr (self1, prefix @ lrs @ '', '' @ join '', '' (log_items ops self1 log_dict))) \<and>
         (\<forall>t tot eta_str ts.
            dict_get log_dict (ITER_TIME keys) = Inr t \<and>
            eta_block ops trainer self1 t = Inr (tot, eta_str) \<and>
            py_format ops ''.3f'' t = Inr ts \<and>
            DATA_LOAD_TIME keys \<notin> set (dict_keys log_dict) \<longrightarrow>
            render ops keys trainer self log_dict = Inl (KeyError (DATA_LOAD_TIME keys)))"
proof (intro conjI allI impI)
  assume "ITER_TIME keys \<notin> set (dict_keys log_dict)"
  then have "timing ops keys trainer self1 log_dict = Inr (self1, [])"
    by (simp add: timing_def)
  then show "render ops keys trainer self log_dict =
      Inr (self1, prefix @ lrs @ '', '' @ join '', '' (log_items ops self1 log_dict))"
    using assms by (simp add: render_def)
next
  fix t tot eta_str ts
  assume h: "dict_get log_dict (ITER_TIME keys) = Inr t \<and>
            eta_block ops trainer self1 t = Inr (tot, eta_str) \<and>
            py_format ops ''.3f'' t = Inr ts \<and>
            DATA_LOAD_TIME keys \<notin> set (dict_keys log_dict)"
  then have k: "ITER_TIME keys \<in> set (dict_keys log_dict)"
    by (blast intro: dict_get_Inr_key)
  from h have m: "dict_get log_dict (DATA_LOAD_TIME keys) = Inl (KeyError (DATA_LOAD_TIME keys))"
    by (simp add: dict_get_missing)
  have "timing ops keys trainer self1 log_dict = Inl (KeyError (DATA_LOAD_TIME keys))"
    using h by (simp add: timing_def k m)
  then show "render ops keys trainer self log_dict = Inl (KeyError (DATA_LOAD_TIME keys))"
    using assms by (simp add: render_def)
qed

theorem data_load_time_read_unconditionally_witness:
  "dict_get iter_time_only_snapshot (MODE LogKeys) = Inr (VStr (TRAIN LogKeys)) \<and>
   dict_get iter_time_only_snapshot (ITER_TIME LogKeys) = Inr (VFloat (1 / 2)) \<and>
   DATA_LOAD_TIME LogKeys \<notin> set (dict_keys iter_time_only_snapshot) \<and>
   render exact_ops LogKeys example_trainer example_hook iter_time_only_snapshot =
     Inl (KeyError ''data_load_time'')"
proof -
  have h1: "dict_get iter_time_only_snapshot (MODE LogKeys) = Inr (VStr (TRAIN LogKeys))"
    by (simp add: eval_defs)
  have h2: "dict_get iter_time_only_snapshot (LR LogKeys) = Inr (VFloat (1 / 2))"
    by (simp add: eval_defs)
  have h3: "lr_str exact_ops LogKeys (VFloat (1 / 2)) = Inr ''lr: 5.000e-01''"
    by (simp add: render_defs eval_defs)
  have h4: "train_prefix exact_ops LogKeys example_trainer example_hook iter_time_only_snapshot =
              Inr (''epoch [1][10/50]'' @ [CHR 0x09])"
    by (simp add: render_defs eval_defs)
  have h5: "example_hook\<lparr>logged_keys := [''lr'', ''mode'', ''iter'', ''epoch'']\<rparr> =
              example_hook\<lparr>logged_keys := logged_keys example_hook
                @ [LR LogKeys, MODE LogKeys, ITER LogKeys, EPOCH LogKeys]\<rparr>"
    by (simp add: eval_defs)
  have t: "dict_get iter_time_only_snapshot (ITER_TIME LogKeys) = Inr (VFloat (1 / 2))"
    by (simp add: eval_defs)
  have e: "eta_block exact_ops example_trainer
             (example_hook\<lparr>logged_keys := [''lr'', ''mode'', ''iter'', ''epoch'']\<rparr>)
             (VFloat (1 / 2)) = Inr (NFloat 5, ''0:00:45'')"
    by (simp add: render_defs eval_defs)
  have f: "py_format exact_ops ''.3f'' (VFloat (1 / 2)) = Inr ''0.500''"
    by (simp add: render_defs)
  have n: "DATA_LOAD_TIME LogKeys \<notin> set (dict_keys iter_time_only_snapshot)"
    by (simp add: eval_defs)
  have c: "render exact_ops LogKeys example_trainer example_hook iter_time_only_snapshot =
     Inl (KeyError ''data_load_time'')"
    using data_load_time_read_unconditionally [OF h1 h2 h3 h4 h5] t e f n
    by (auto simp: LogKeys_def)
  show ?thesis by (intro conjI h1 t n c)
qed

end
